theory Spec2Isabelle
  imports Main "HOL-Library.Word" "HOL-Library.Sublist" "HOL-Library.AList"
begin

unbundle bit_operations_syntax

section \<open>Library functions the client calls\<close>

text \<open>
  Go strings are byte sequences; \<^typ>\<open>string\<close> (a list of 8-bit \<^typ>\<open>char\<close>) is the
  same thing. The functions of this section are those of Go's standard library that the
  client computes with: \<^verbatim>\<open>strings.Contains\<close>, \<^verbatim>\<open>md5.Sum\<close> (RFC 1321), the
  \<^verbatim>\<open>%x\<close> verb of \<^verbatim>\<open>fmt.Sprintf\<close> on a byte array, its \<^verbatim>\<open>%d\<close> verb,
  \<^verbatim>\<open>filepath.Join\<close> and \<^verbatim>\<open>base64.StdEncoding.EncodeToString\<close> (RFC 4648).
\<close>

subsection \<open>strings.Contains\<close>

fun strings_Contains :: "string \<Rightarrow> string \<Rightarrow> bool" where
  "strings_Contains [] substr = (substr = [])"
| "strings_Contains (x # s) substr =
     (prefix substr (x # s) \<or> strings_Contains s substr)"

subsection \<open>crypto/md5\<close>

type_synonym md5_state = "32 word \<times> 32 word \<times> 32 word \<times> 32 word"

definition md5_shifts :: "nat list" where
  "md5_shifts =
     [7, 12, 17, 22, 7, 12, 17, 22, 7, 12, 17, 22, 7, 12, 17, 22,
      5, 9, 14, 20, 5, 9, 14, 20, 5, 9, 14, 20, 5, 9, 14, 20,
      4, 11, 16, 23, 4, 11, 16, 23, 4, 11, 16, 23, 4, 11, 16, 23,
      6, 10, 15, 21, 6, 10, 15, 21, 6, 10, 15, 21, 6, 10, 15, 21]"

definition md5_table :: "32 word list" where
  "md5_table =
     [0xd76aa478, 0xe8c7b756, 0x242070db, 0xc1bdceee,
      0xf57c0faf, 0x4787c62a, 0xa8304613, 0xfd469501,
      0x698098d8, 0x8b44f7af, 0xffff5bb1, 0x895cd7be,
      0x6b901122, 0xfd987193, 0xa679438e, 0x49b40821,
      0xf61e2562, 0xc040b340, 0x265e5a51, 0xe9b6c7aa,
      0xd62f105d, 0x02441453, 0xd8a1e681, 0xe7d3fbc8,
      0x21e1cde6, 0xc33707d6, 0xf4d50d87, 0x455a14ed,
      0xa9e3e905, 0xfcefa3f8, 0x676f02d9, 0x8d2a4c8a,
      0xfffa3942, 0x8771f681, 0x6d9d6122, 0xfde5380c,
      0xa4beea44, 0x4bdecfa9, 0xf6bb4b60, 0xbebfbc70,
      0x289b7ec6, 0xeaa127fa, 0xd4ef3085, 0x04881d05,
      0xd9d4d039, 0xe6db99e5, 0x1fa27cf8, 0xc4ac5665,
      0xf4292244, 0x432aff97, 0xab9423a7, 0xfc93a039,
      0x655b59c3, 0x8f0ccc92, 0xffeff47d, 0x85845dd1,
      0x6fa87e4f, 0xfe2ce6e0, 0xa3014314, 0x4e0811a1,
      0xf7537e82, 0xbd3af235, 0x2ad7d2bb, 0xeb86d391]"

text \<open>Little-endian packing of bytes into 32-bit words and back.\<close>

fun md5_words :: "string \<Rightarrow> 32 word list" where
  "md5_words (a # b # c # d # rest) =
     (of_char a + push_bit 8 (of_char b) + push_bit 16 (of_char c) + push_bit 24 (of_char d))
       # md5_words rest"
| "md5_words _ = []"

definition md5_word_bytes :: "32 word \<Rightarrow> string" where
  "md5_word_bytes w =
     [char_of (unat w), char_of (unat (drop_bit 8 w)),
      char_of (unat (drop_bit 16 w)), char_of (unat (drop_bit 24 w))]"

fun le_bytes :: "nat \<Rightarrow> nat \<Rightarrow> string" where
  "le_bytes 0 v = []"
| "le_bytes (Suc n) v = char_of v # le_bytes n (v div 256)"

definition md5_length_bytes :: "nat \<Rightarrow> string" where
  "md5_length_bytes bits = le_bytes 8 bits"

definition md5_pad :: "string \<Rightarrow> string" where
  "md5_pad msg =
     msg @ [char_of (128 :: nat)]
         @ replicate ((119 - length msg mod 64) mod 64) (char_of (0 :: nat))
         @ md5_length_bytes (8 * length msg)"

text \<open>The rotation of RFC 1321: \<^verbatim>\<open>(x << n) | (x >> (32 - n))\<close>.\<close>

definition rotate_left :: "32 word \<Rightarrow> nat \<Rightarrow> 32 word" where
  "rotate_left x n = push_bit n x OR drop_bit (32 - n) x"

definition md5_step :: "32 word list \<Rightarrow> md5_state \<Rightarrow> nat \<Rightarrow> md5_state" where
  "md5_step m st i =
     (case st of (a, b, c, d) \<Rightarrow>
        let (f, g) =
              (if i < 16 then ((b AND c) OR (NOT b AND d), i)
               else if i < 32 then ((d AND b) OR (NOT d AND c), (5 * i + 1) mod 16)
               else if i < 48 then (b XOR c XOR d, (3 * i + 5) mod 16)
               else (c XOR (b OR NOT d), (7 * i) mod 16));
            f' = f + a + md5_table ! i + m ! g
        in (d, b + rotate_left f' (md5_shifts ! i), b, c))"

definition md5_block :: "md5_state \<Rightarrow> 32 word list \<Rightarrow> md5_state" where
  "md5_block st m =
     (case st of (a0, b0, c0, d0) \<Rightarrow>
        case foldl (md5_step m) st [0..<64] of (a, b, c, d) \<Rightarrow>
          (a0 + a, b0 + b, c0 + c, d0 + d))"

fun md5_blocks :: "md5_state \<Rightarrow> 32 word list \<Rightarrow> md5_state" where
  "md5_blocks st ws =
     (if length ws < 16 then st else md5_blocks (md5_block st (take 16 ws)) (drop 16 ws))"

declare md5_blocks.simps [simp del]

definition md5_Sum :: "string \<Rightarrow> string" where
  "md5_Sum msg =
     (case md5_blocks (0x67452301, 0xefcdab89, 0x98badcfe, 0x10325476) (md5_words (md5_pad msg))
      of (a, b, c, d) \<Rightarrow>
        md5_word_bytes a @ md5_word_bytes b @ md5_word_bytes c @ md5_word_bytes d)"

subsection \<open>fmt.Sprintf("%x", bytes)\<close>

definition hex_digit :: "nat \<Rightarrow> char" where
  "hex_digit n = ''0123456789abcdef'' ! n"

definition hex_byte :: "char \<Rightarrow> string" where
  "hex_byte c = [hex_digit (of_char c div 16), hex_digit (of_char c mod 16)]"

definition sprintf_x :: "string \<Rightarrow> string" where
  "sprintf_x bs = concat (map hex_byte bs)"

subsection \<open>fmt.Sprintf("%d", n)\<close>

fun sprintf_d_nat :: "nat \<Rightarrow> string" where
  "sprintf_d_nat n =
     (if n < 10 then [char_of (48 + n)] else sprintf_d_nat (n div 10) @ [char_of (48 + n mod 10)])"

declare sprintf_d_nat.simps [simp del]

definition sprintf_d :: "int \<Rightarrow> string" where
  "sprintf_d i = (if i < 0 then ''-'' @ sprintf_d_nat (nat (- i)) else sprintf_d_nat (nat i))"

subsection \<open>filepath.Join\<close>

text \<open>
  \<^verbatim>\<open>filepath.Join\<close> on a system whose separator is the slash: empty elements are
  ignored and the result is cleaned as \<^verbatim>\<open>filepath.Clean\<close> does, lexically (repeated
  separators, \<^verbatim>\<open>.\<close> elements and inner \<^verbatim>\<open>..\<close> elements go; \<^verbatim>\<open>..\<close> at the root
  goes; the empty path is \<^verbatim>\<open>.\<close>).
\<close>

fun path_elements :: "string \<Rightarrow> string \<Rightarrow> string list" where
  "path_elements cur [] = [cur]"
| "path_elements cur (x # s) =
     (if x = CHR ''/'' then cur # path_elements [] s else path_elements (cur @ [x]) s)"

text \<open>The elements kept so far are the second argument, the last one first.\<close>

fun clean_elements :: "bool \<Rightarrow> string list \<Rightarrow> string list \<Rightarrow> string list" where
  "clean_elements rooted out [] = rev out"
| "clean_elements rooted out (el # els) =
     (if el = [] \<or> el = ''.'' then clean_elements rooted out els
      else if el = ''..'' then
        (case out of
           [] \<Rightarrow> if rooted then clean_elements rooted [] els
                 else clean_elements rooted [el] els
         | prev # rest \<Rightarrow>
             if prev = ''..'' then clean_elements rooted (el # out) els
             else clean_elements rooted rest els)
      else clean_elements rooted (el # out) els)"

fun join_slash :: "string list \<Rightarrow> string" where
  "join_slash [] = []"
| "join_slash [x] = x"
| "join_slash (x # y # r) = x @ ''/'' @ join_slash (y # r)"

definition filepath_Clean :: "string \<Rightarrow> string" where
  "filepath_Clean path =
     (let rooted = (case path of [] \<Rightarrow> False | x # s \<Rightarrow> x = CHR ''/'');
          out = join_slash (clean_elements rooted [] (path_elements [] path))
      in if rooted then ''/'' @ out else if out = [] then ''.'' else out)"

definition filepath_Join :: "string \<Rightarrow> string \<Rightarrow> string" where
  "filepath_Join dir name =
     (if dir = [] \<and> name = [] then []
      else if dir = [] then filepath_Clean name
      else if name = [] then filepath_Clean dir
      else filepath_Clean (dir @ ''/'' @ name))"

subsection \<open>base64.StdEncoding.EncodeToString\<close>

definition base64_digit :: "nat \<Rightarrow> char" where
  "base64_digit n =
     ''ABCDEFGHIJKLMNOPQRSTUVWXYZabcdefghijklmnopqrstuvwxyz0123456789+/'' ! n"

fun base64_groups :: "nat list \<Rightarrow> string" where
  "base64_groups [] = []"
| "base64_groups [a] =
     [base64_digit (a div 4), base64_digit (a mod 4 * 16), CHR ''='', CHR ''='']"
| "base64_groups [a, b] =
     [base64_digit (a div 4), base64_digit (a mod 4 * 16 + b div 16),
      base64_digit (b mod 16 * 4), CHR ''='']"
| "base64_groups (a # b # c # rest) =
     [base64_digit (a div 4), base64_digit (a mod 4 * 16 + b div 16),
      base64_digit (b mod 16 * 4 + c div 64), base64_digit (c mod 64)]
       @ base64_groups rest"

definition base64_EncodeToString :: "string \<Rightarrow> string" where
  "base64_EncodeToString s = base64_groups (map of_char s)"

section \<open>The client, its requests and the world around it\<close>

text \<open>
  Values that travel as \<^verbatim>\<open>interface{}\<close>: the payloads handed to
  \<^verbatim>\<open>sendRequest\<close> and the entries of \<^verbatim>\<open>map[string]interface{}\<close>. A Go map
  is an association list here (first binding of a key wins); \<^verbatim>\<open>json.Marshal\<close> sorts
  the keys, so the order carries no meaning.
\<close>

datatype gvalue =
    GString string
  | GInt int
  | GBool bool
  | GList "gvalue list"
  | GMap "(string \<times> gvalue) list"

text \<open>The \<^verbatim>\<open>Client\<close> struct; \<^verbatim>\<open>httpClient\<close> only carries the 30 second timeout.\<close>

record Client =
  UserID :: string
  Secret :: string
  TokenStorage :: string
  Token :: string

record TokenResponse =
  AccessToken :: string
  TokenType :: string
  ExpiresIn :: int

text \<open>The typed results and arguments of the API methods.\<close>

record AddressBook =
  book_ID :: int
  book_Name :: string

record Email =
  email_Email :: string
  email_Variables :: "(string \<times> gvalue) list"

record Campaign =
  campaign_ID :: int
  campaign_Name :: string
  campaign_Status :: string
  campaign_SenderName :: string
  campaign_SenderEmail :: string
  campaign_Subject :: string

record SMSCampaign =
  sms_ID :: int
  sms_Sender :: string
  sms_Body :: string
  sms_Status :: string

record Phone =
  phone_Phone :: string
  phone_Variables :: "(string \<times> gvalue) list"

text \<open>
  How \<^verbatim>\<open>json.Marshal\<close> sees an \<^verbatim>\<open>Email\<close> and a \<^verbatim>\<open>Phone\<close>: the field tags,
  with \<^verbatim>\<open>variables\<close> left out when empty (\<^verbatim>\<open>omitempty\<close>).
\<close>

definition Email_value :: "Email \<Rightarrow> gvalue" where
  "Email_value x =
     GMap ((''email'', GString (email_Email x))
           # (if email_Variables x = [] then [] else [(''variables'', GMap (email_Variables x))]))"

definition Phone_value :: "Phone \<Rightarrow> gvalue" where
  "Phone_value x =
     GMap ((''phone'', GString (phone_Phone x))
           # (if phone_Variables x = [] then [] else [(''variables'', GMap (phone_Variables x))]))"

text \<open>An \<^verbatim>\<open>http.Request\<close> as \<^verbatim>\<open>sendRequest\<close> builds it.\<close>

record request =
  req_method :: string
  req_url :: string
  req_body :: "string option"
  req_header :: "(string \<times> string) list"

text \<open>
  What \<^verbatim>\<open>httpClient.Do\<close> followed by \<^verbatim>\<open>io.ReadAll\<close> yields: the round trip fails,
  or a response arrives whose body cannot be read, or a status code and a body.
\<close>

datatype http_result =
    DoFailed
  | ReadFailed
  | Response nat string

text \<open>
  The errors of the package, one constructor per \<^verbatim>\<open>fmt.Errorf\<close> site of the
  dispatcher and the token functions; the local argument checks of the API methods share
  \<open>Errorf\<close> with their message. \<open>WriteFileError\<close> is the error of
  \<^verbatim>\<open>os.WriteFile\<close>, which \<^verbatim>\<open>getToken\<close> returns as it is.
\<close>

datatype error =
    MarshalRequestError
  | CreateRequestError
  | RequestFailed
  | ReadResponseError
  | InvalidCredentials
  | RefreshTokenError error
  | ParseTokenError
  | MkdirError
  | WriteFileError
  | Errorf string

text \<open>
  The behaviour the source leaves to the standard library's JSON codec, to
  \<^verbatim>\<open>http.NewRequest\<close>, to the remote server and to the operating system. The server
  answers a request knowing every request sent before it (\<open>http_Do\<close> takes that
  history), so any deterministic server is an instance.
\<close>

record env =
  json_Marshal :: "gvalue \<Rightarrow> string option"
  json_Unmarshal_TokenResponse :: "string \<Rightarrow> TokenResponse option"
  json_Unmarshal_AddressBook :: "string \<Rightarrow> AddressBook option"
  json_Unmarshal_Emails :: "string \<Rightarrow> Email list option"
  json_Unmarshal_Email :: "string \<Rightarrow> Email option"
  json_Unmarshal_Campaign :: "string \<Rightarrow> Campaign option"
  json_Unmarshal_SMSCampaign :: "string \<Rightarrow> SMSCampaign option"
  http_NewRequest_ok :: "string \<Rightarrow> string \<Rightarrow> bool"
  http_Do :: "request list \<Rightarrow> request \<Rightarrow> http_result"
  os_MkdirAll_ok :: "string \<Rightarrow> bool"
  os_WriteFile_ok :: "string \<Rightarrow> string \<Rightarrow> bool"

text \<open>
  The mutable world: the directories that exist, the readable files, the requests that
  went out so far, in order, the lines printed to standard output, and a counter of the
  \<^verbatim>\<open>getToken\<close> invocations (a ghost field: the code does not keep it). A file is
  keyed by the path handed to \<^verbatim>\<open>os.ReadFile\<close> and \<^verbatim>\<open>os.WriteFile\<close>, which the
  client always gets from \<^verbatim>\<open>filepath.Join\<close>. Two cleaned paths that reach one file
  through a link or through the working directory are two keys: the statements below
  read and write the file under the client's own path and say nothing of other paths.
\<close>

record world =
  dirs :: "string list"
  files :: "string \<Rightarrow> string option"
  sent :: "request list"
  stdout :: "string list"
  fetches :: nat

definition APIUrl :: string where
  "APIUrl = ''https://api.sendpulse.com''"

definition NewClient :: "string \<Rightarrow> string \<Rightarrow> string \<Rightarrow> Client" where
  "NewClient userID secret tokenStorage =
     \<lparr>UserID = userID, Secret = secret, TokenStorage = tokenStorage, Token = []\<rparr>"

subsection \<open>The token file\<close>

definition hashName :: "Client \<Rightarrow> string" where
  "hashName c = sprintf_x (md5_Sum (UserID c @ ''::'' @ Secret c))"

definition tokenPath :: "Client \<Rightarrow> string" where
  "tokenPath c = filepath_Join (TokenStorage c) (hashName c)"

definition os_MkdirAll :: "env \<Rightarrow> string \<Rightarrow> world \<Rightarrow> world option" where
  "os_MkdirAll e d w =
     (if d \<in> set (dirs w) then Some w
      else if os_MkdirAll_ok e d then Some (w\<lparr>dirs := d # dirs w\<rparr>)
      else None)"

definition os_ReadFile :: "string \<Rightarrow> world \<Rightarrow> string option" where
  "os_ReadFile p w = files w p"

definition os_WriteFile :: "env \<Rightarrow> string \<Rightarrow> string \<Rightarrow> world \<Rightarrow> world option" where
  "os_WriteFile e p content w =
     (if os_WriteFile_ok e p content then Some (w\<lparr>files := (files w)(p \<mapsto> content)\<rparr>)
      else None)"

subsection \<open>sendRequest and getToken\<close>

text \<open>
  Lines 151 to 170 of \<^verbatim>\<open>sendRequest\<close>: the URL, the JSON body when
  \<^verbatim>\<open>data != nil\<close>, the request and its headers.
\<close>

definition buildRequest ::
  "env \<Rightarrow> string \<Rightarrow> string \<Rightarrow> gvalue option \<Rightarrow> bool \<Rightarrow> Client \<Rightarrow> error + request" where
  "buildRequest e path method data useToken c =
     (let url = APIUrl @ ''/'' @ path in
      case (case data of None \<Rightarrow> Some None
            | Some d \<Rightarrow> (case json_Marshal e d of None \<Rightarrow> None | Some j \<Rightarrow> Some (Some j)))
      of None \<Rightarrow> Inl MarshalRequestError
       | Some body \<Rightarrow>
           if \<not> http_NewRequest_ok e method url then Inl CreateRequestError
           else Inr \<lparr>req_method = method, req_url = url, req_body = body,
                     req_header =
                       (''Content-Type'', ''application/json'')
                         # (if useToken \<and> Token c \<noteq> [] then [(''Authorization'', ''Bearer '' @ Token c)]
                            else [])\<rparr>)"

definition tokenRequestData :: "Client \<Rightarrow> gvalue" where
  "tokenRequestData c =
     GMap [(''grant_type'', GString ''client_credentials''),
           (''client_id'', GString (UserID c)),
           (''client_secret'', GString (Secret c))]"

text \<open>
  \<^verbatim>\<open>sendRequest\<close> retries through \<^verbatim>\<open>getToken\<close>, which itself calls
  \<^verbatim>\<open>sendRequest\<close>; a server that keeps answering 401 keeps the recursion going for
  ever. The first argument bounds the depth of the calls: \<open>None\<close> means that the bound
  was reached before the call returned. The receiver is a pointer, so the client comes
  back with every result, errors included.
\<close>

type_synonym 'a outcome = "((error + 'a) \<times> Client \<times> world) option"

fun sendRequest ::
  "env \<Rightarrow> nat \<Rightarrow> string \<Rightarrow> string \<Rightarrow> gvalue option \<Rightarrow> bool \<Rightarrow> Client \<Rightarrow> world \<Rightarrow> string outcome"
and getToken :: "env \<Rightarrow> nat \<Rightarrow> Client \<Rightarrow> world \<Rightarrow> unit outcome" where
  "sendRequest e 0 path method data useToken c w = None"
| "sendRequest e (Suc n) path method data useToken c w =
     (case buildRequest e path method data useToken c of
        Inl err \<Rightarrow> Some (Inl err, c, w)
      | Inr req \<Rightarrow>
          let w1 = w\<lparr>sent := sent w @ [req]\<rparr> in
          (case http_Do e (sent w) req of
             DoFailed \<Rightarrow> Some (Inl RequestFailed, c, w1)
           | ReadFailed \<Rightarrow> Some (Inl ReadResponseError, c, w1)
           | Response status respBody \<Rightarrow>
               if status = 401 then
                 if strings_Contains respBody ''invalid_client''
                 then Some (Inl InvalidCredentials, c, w1)
                 else (case getToken e n c w1 of
                         None \<Rightarrow> None
                       | Some (Inl err, c2, w2) \<Rightarrow> Some (Inl (RefreshTokenError err), c2, w2)
                       | Some (Inr u, c2, w2) \<Rightarrow> sendRequest e n path method data True c2 w2)
               else Some (Inr respBody, c, w1)))"
| "getToken e 0 c w = None"
| "getToken e (Suc n) c w =
     (case sendRequest e n ''oauth/access_token'' ''POST'' (Some (tokenRequestData c)) False c
             (w\<lparr>fetches := Suc (fetches w)\<rparr>) of
        None \<Rightarrow> None
      | Some (Inl err, c1, w1) \<Rightarrow> Some (Inl err, c1, w1)
      | Some (Inr resp, c1, w1) \<Rightarrow>
          (case json_Unmarshal_TokenResponse e resp of
             None \<Rightarrow> Some (Inl ParseTokenError, c1, w1)
           | Some tokenResp \<Rightarrow>
               let c2 = c1\<lparr>Token := AccessToken tokenResp\<rparr> in
               (case os_WriteFile e (tokenPath c2) (Token c2) w1 of
                  None \<Rightarrow> Some (Inl WriteFileError, c2, w1)
                | Some w2 \<Rightarrow> Some (Inr (), c2, w2))))"

subsection \<open>Init\<close>

definition Init :: "env \<Rightarrow> nat \<Rightarrow> Client \<Rightarrow> world \<Rightarrow> unit outcome" where
  "Init e n c w =
     (case os_MkdirAll e (TokenStorage c) w of
        None \<Rightarrow> Some (Inl MkdirError, c, w)
      | Some w1 \<Rightarrow>
          let c1 = (case os_ReadFile (tokenPath c) w1 of
                      Some tokenData \<Rightarrow> c\<lparr>Token := tokenData\<rparr>
                    | None \<Rightarrow> c)
          in if Token c1 = [] then getToken e n c1 w1 else Some (Inr (), c1, w1))"

subsection \<open>SendRawRequest and SMTPSendMail\<close>

definition allowedMethods :: "string list" where
  "allowedMethods = [''POST'', ''GET'', ''DELETE'', ''PUT'', ''PATCH'']"

text \<open>The loop over \<^verbatim>\<open>allowedMethods\<close> that sets \<^verbatim>\<open>methodAllowed\<close>.\<close>

fun methodAllowed :: "string \<Rightarrow> string list \<Rightarrow> bool" where
  "methodAllowed method [] = False"
| "methodAllowed method (m # ms) = (if method = m then True else methodAllowed method ms)"

definition SendRawRequest ::
  "env \<Rightarrow> nat \<Rightarrow> string \<Rightarrow> string \<Rightarrow> gvalue option \<Rightarrow> Client \<Rightarrow> world \<Rightarrow> string outcome" where
  "SendRawRequest e n path method data c w =
     (if \<not> methodAllowed method allowedMethods
      then Some (Inl (Errorf ''method not allowed''), c, w)
      else sendRequest e n path method data True c w)"

text \<open>
  \<^verbatim>\<open>SMTPSendMail\<close> takes a map, which Go passes by reference: the map as the call
  leaves it is part of the result (\<open>None\<close> is the nil map). The response is printed
  whether or not the request failed (an empty body on failure).
\<close>

definition encodeHtml :: "(string \<times> gvalue) list \<Rightarrow> (string \<times> gvalue) list" where
  "encodeHtml emailData =
     (case map_of emailData ''html'' of
        Some (GString html) \<Rightarrow>
          AList.update ''html'' (GString (base64_EncodeToString html)) emailData
      | _ \<Rightarrow> emailData)"

definition SMTPSendMail ::
  "env \<Rightarrow> nat \<Rightarrow> (string \<times> gvalue) list option \<Rightarrow> Client \<Rightarrow> world
     \<Rightarrow> ((error + unit) \<times> (string \<times> gvalue) list option \<times> Client \<times> world) option" where
  "SMTPSendMail e n emailData c w =
     (case emailData of
        None \<Rightarrow> Some (Inl (Errorf ''empty email data''), None, c, w)
      | Some m \<Rightarrow>
          let m1 = encodeHtml m in
          (case json_Marshal e (GMap m1) of
             None \<Rightarrow> Some (Inl (Errorf ''failed to serialize email data''), Some m1, c, w)
           | Some emailJSON \<Rightarrow>
               (case sendRequest e n ''smtp/emails'' ''POST''
                       (Some (GMap [(''email'', GString emailJSON)])) True c w of
                  None \<Rightarrow> None
                | Some (r, c1, w1) \<Rightarrow>
                    let s = (case r of Inl err \<Rightarrow> [] | Inr body \<Rightarrow> body);
                        w2 = w1\<lparr>stdout := stdout w1 @ [''Response: '' @ s @ [CHR 0x0A]]\<rparr>
                    in Some ((case r of Inl err \<Rightarrow> Inl err | Inr body \<Rightarrow> Inr ()), Some m1, c1, w2))))"

subsection \<open>The API methods that check their arguments\<close>

text \<open>
  The two ways in which the methods end: \<^verbatim>\<open>_, err := c.sendRequest(...); return err\<close>,
  and \<^verbatim>\<open>json.Unmarshal\<close> of the response into the typed result with its own error
  message.
\<close>

definition returnError :: "string outcome \<Rightarrow> unit outcome" where
  "returnError out =
     (case out of
        None \<Rightarrow> None
      | Some (Inl err, c, w) \<Rightarrow> Some (Inl err, c, w)
      | Some (Inr resp, c, w) \<Rightarrow> Some (Inr (), c, w))"

definition unmarshalResult :: "(string \<Rightarrow> 'a option) \<Rightarrow> string \<Rightarrow> string outcome \<Rightarrow> 'a outcome" where
  "unmarshalResult decode msg out =
     (case out of
        None \<Rightarrow> None
      | Some (Inl err, c, w) \<Rightarrow> Some (Inl err, c, w)
      | Some (Inr resp, c, w) \<Rightarrow>
          (case decode resp of
             None \<Rightarrow> Some (Inl (Errorf msg), c, w)
           | Some v \<Rightarrow> Some (Inr v, c, w)))"

definition CreateAddressBook :: "env \<Rightarrow> nat \<Rightarrow> string \<Rightarrow> Client \<Rightarrow> world \<Rightarrow> AddressBook outcome" where
  "CreateAddressBook e n name c w =
     (if name = [] then Some (Inl (Errorf ''empty book name''), c, w)
      else unmarshalResult (json_Unmarshal_AddressBook e) ''failed to parse address book''
             (sendRequest e n ''addressbooks'' ''POST''
                (Some (GMap [(''bookName'', GString name)])) True c w))"

definition EditAddressBook :: "env \<Rightarrow> nat \<Rightarrow> int \<Rightarrow> string \<Rightarrow> Client \<Rightarrow> world \<Rightarrow> unit outcome" where
  "EditAddressBook e n id' name c w =
     (if id' = 0 \<or> name = [] then Some (Inl (Errorf ''empty book name or book id''), c, w)
      else returnError
             (sendRequest e n (''addressbooks/'' @ sprintf_d id') ''PUT''
                (Some (GMap [(''name'', GString name)])) True c w))"

definition RemoveAddressBook :: "env \<Rightarrow> nat \<Rightarrow> int \<Rightarrow> Client \<Rightarrow> world \<Rightarrow> unit outcome" where
  "RemoveAddressBook e n id' c w =
     (if id' = 0 then Some (Inl (Errorf ''empty book id''), c, w)
      else returnError (sendRequest e n (''addressbooks/'' @ sprintf_d id') ''DELETE'' None True c w))"

definition GetBookInfo :: "env \<Rightarrow> nat \<Rightarrow> int \<Rightarrow> Client \<Rightarrow> world \<Rightarrow> AddressBook outcome" where
  "GetBookInfo e n id' c w =
     (if id' = 0 then Some (Inl (Errorf ''empty book id''), c, w)
      else unmarshalResult (json_Unmarshal_AddressBook e) ''failed to parse address book''
             (sendRequest e n (''addressbooks/'' @ sprintf_d id') ''GET'' None True c w))"

definition GetEmailsFromBook :: "env \<Rightarrow> nat \<Rightarrow> int \<Rightarrow> Client \<Rightarrow> world \<Rightarrow> Email list outcome" where
  "GetEmailsFromBook e n id' c w =
     (if id' = 0 then Some (Inl (Errorf ''empty book id''), c, w)
      else unmarshalResult (json_Unmarshal_Emails e) ''failed to parse emails''
             (sendRequest e n (''addressbooks/'' @ sprintf_d id' @ ''/emails'') ''GET'' None True c w))"

definition AddEmails :: "env \<Rightarrow> nat \<Rightarrow> int \<Rightarrow> Email list \<Rightarrow> Client \<Rightarrow> world \<Rightarrow> unit outcome" where
  "AddEmails e n bookID emails c w =
     (if bookID = 0 \<or> length emails = 0
      then Some (Inl (Errorf ''empty email list or book id''), c, w)
      else case json_Marshal e (GList (map Email_value emails)) of
             None \<Rightarrow> Some (Inl (Errorf ''failed to serialize emails''), c, w)
           | Some emailsJSON \<Rightarrow>
               returnError
                 (sendRequest e n (''addressbooks/'' @ sprintf_d bookID @ ''/emails'') ''POST''
                    (Some (GMap [(''emails'', GString emailsJSON)])) True c w))"

definition RemoveEmails :: "env \<Rightarrow> nat \<Rightarrow> int \<Rightarrow> string list \<Rightarrow> Client \<Rightarrow> world \<Rightarrow> unit outcome" where
  "RemoveEmails e n bookID emails c w =
     (if bookID = 0 \<or> length emails = 0
      then Some (Inl (Errorf ''empty email list or book id''), c, w)
      else case json_Marshal e (GList (map GString emails)) of
             None \<Rightarrow> Some (Inl (Errorf ''failed to serialize emails''), c, w)
           | Some emailsJSON \<Rightarrow>
               returnError
                 (sendRequest e n (''addressbooks/'' @ sprintf_d bookID @ ''/emails'') ''DELETE''
                    (Some (GMap [(''emails'', GString emailsJSON)])) True c w))"

definition GetEmailInfo :: "env \<Rightarrow> nat \<Rightarrow> int \<Rightarrow> string \<Rightarrow> Client \<Rightarrow> world \<Rightarrow> Email outcome" where
  "GetEmailInfo e n bookID email c w =
     (if bookID = 0 \<or> email = [] then Some (Inl (Errorf ''empty email or book id''), c, w)
      else unmarshalResult (json_Unmarshal_Email e) ''failed to parse email info''
             (sendRequest e n (''addressbooks/'' @ sprintf_d bookID @ ''/emails/'' @ email) ''GET''
                None True c w))"

definition UpdateEmailVariables ::
  "env \<Rightarrow> nat \<Rightarrow> int \<Rightarrow> string \<Rightarrow> (string \<times> gvalue) list \<Rightarrow> Client \<Rightarrow> world \<Rightarrow> unit outcome" where
  "UpdateEmailVariables e n bookID email variables c w =
     (if bookID = 0 \<or> email = [] \<or> length variables = 0
      then Some (Inl (Errorf ''empty email, variables or book id''), c, w)
      else returnError
             (sendRequest e n (''addressbooks/'' @ sprintf_d bookID @ ''/emails/variable'') ''POST''
                (Some (GMap [(''email'', GString email), (''variables'', GMap variables)]))
                True c w))"

definition GetCampaignInfo :: "env \<Rightarrow> nat \<Rightarrow> int \<Rightarrow> Client \<Rightarrow> world \<Rightarrow> Campaign outcome" where
  "GetCampaignInfo e n id' c w =
     (if id' = 0 then Some (Inl (Errorf ''empty campaign id''), c, w)
      else unmarshalResult (json_Unmarshal_Campaign e) ''failed to parse campaign''
             (sendRequest e n (''campaigns/'' @ sprintf_d id') ''GET'' None True c w))"

definition CreateCampaign ::
  "env \<Rightarrow> nat \<Rightarrow> string \<Rightarrow> string \<Rightarrow> string \<Rightarrow> string \<Rightarrow> int \<Rightarrow> string \<Rightarrow> string list
     \<Rightarrow> Client \<Rightarrow> world \<Rightarrow> Campaign outcome" where
  "CreateCampaign e n senderName senderEmail subject body bookID name attachments c w =
     (if senderName = [] \<or> senderEmail = [] \<or> subject = [] \<or> body = [] \<or> bookID = 0
      then Some (Inl (Errorf ''missing required campaign data''), c, w)
      else
        let data =
              [(''sender_name'', GString senderName),
               (''sender_email'', GString senderEmail),
               (''subject'', GString subject),
               (''body'', GString (base64_EncodeToString body)),
               (''list_id'', GInt bookID),
               (''name'', GString name)]
              @ (if length attachments > 0
                 then [(''attachments'',
                        GString (case json_Marshal e (GList (map GString attachments)) of
                                   None \<Rightarrow> [] | Some attachmentsJSON \<Rightarrow> attachmentsJSON))]
                 else [])
        in unmarshalResult (json_Unmarshal_Campaign e) ''failed to parse campaign''
             (sendRequest e n ''campaigns'' ''POST'' (Some (GMap data)) True c w))"

definition CancelCampaign :: "env \<Rightarrow> nat \<Rightarrow> int \<Rightarrow> Client \<Rightarrow> world \<Rightarrow> unit outcome" where
  "CancelCampaign e n id' c w =
     (if id' = 0 then Some (Inl (Errorf ''empty campaign id''), c, w)
      else returnError (sendRequest e n (''campaigns/'' @ sprintf_d id') ''DELETE'' None True c w))"

definition SMSAddPhones :: "env \<Rightarrow> nat \<Rightarrow> int \<Rightarrow> string list \<Rightarrow> Client \<Rightarrow> world \<Rightarrow> unit outcome" where
  "SMSAddPhones e n bookID phones c w =
     (if bookID = 0 \<or> length phones = 0 then Some (Inl (Errorf ''empty phones or book id''), c, w)
      else case json_Marshal e (GList (map GString phones)) of
             None \<Rightarrow> Some (Inl (Errorf ''failed to serialize phones''), c, w)
           | Some phonesJSON \<Rightarrow>
               returnError
                 (sendRequest e n ''sms/numbers'' ''POST''
                    (Some (GMap [(''addressBookId'', GInt bookID), (''phones'', GString phonesJSON)]))
                    True c w))"

definition SMSAddPhonesWithVariables ::
  "env \<Rightarrow> nat \<Rightarrow> int \<Rightarrow> Phone list \<Rightarrow> Client \<Rightarrow> world \<Rightarrow> unit outcome" where
  "SMSAddPhonesWithVariables e n bookID phones c w =
     (if bookID = 0 \<or> length phones = 0 then Some (Inl (Errorf ''empty phones or book id''), c, w)
      else case json_Marshal e (GList (map Phone_value phones)) of
             None \<Rightarrow> Some (Inl (Errorf ''failed to serialize phones''), c, w)
           | Some phonesJSON \<Rightarrow>
               returnError
                 (sendRequest e n ''sms/numbers/variables'' ''POST''
                    (Some (GMap [(''addressBookId'', GInt bookID), (''phones'', GString phonesJSON)]))
                    True c w))"

text \<open>
  The optional \<^verbatim>\<open>*time.Time\<close> of the SMS methods is given by its rendering under the
  layout \<^verbatim>\<open>2006-01-02 15:04:05\<close> (\<open>None\<close> is the nil pointer).
\<close>

definition SMSSend ::
  "env \<Rightarrow> nat \<Rightarrow> string \<Rightarrow> string list \<Rightarrow> string \<Rightarrow> string option \<Rightarrow> bool \<Rightarrow> string
     \<Rightarrow> Client \<Rightarrow> world \<Rightarrow> unit outcome" where
  "SMSSend e n senderName phones body date transliterate route c w =
     (if senderName = [] \<or> length phones = 0 \<or> body = []
      then Some (Inl (Errorf ''missing required SMS data''), c, w)
      else case json_Marshal e (GList (map GString phones)) of
             None \<Rightarrow> Some (Inl (Errorf ''failed to serialize phones''), c, w)
           | Some phonesJSON \<Rightarrow>
               let data =
                     [(''sender'', GString senderName),
                      (''phones'', GString phonesJSON),
                      (''body'', GString body),
                      (''transliterate'', GBool transliterate),
                      (''route'', GString route)]
                     @ (case date of None \<Rightarrow> [] | Some d \<Rightarrow> [(''date'', GString d)])
               in returnError (sendRequest e n ''sms/send'' ''POST'' (Some (GMap data)) True c w))"

definition SMSAddCampaign ::
  "env \<Rightarrow> nat \<Rightarrow> string \<Rightarrow> int \<Rightarrow> string \<Rightarrow> string option \<Rightarrow> bool
     \<Rightarrow> Client \<Rightarrow> world \<Rightarrow> SMSCampaign outcome" where
  "SMSAddCampaign e n senderName bookID body date transliterate c w =
     (if senderName = [] \<or> bookID = 0 \<or> body = []
      then Some (Inl (Errorf ''missing required SMS campaign data''), c, w)
      else
        let data =
              [(''sender'', GString senderName),
               (''addressBookId'', GInt bookID),
               (''body'', GString body),
               (''transliterate'', GBool transliterate)]
              @ (case date of None \<Rightarrow> [] | Some d \<Rightarrow> [(''date'', GString d)])
        in unmarshalResult (json_Unmarshal_SMSCampaign e) ''failed to parse SMS campaign''
             (sendRequest e n ''sms/campaigns'' ''POST'' (Some (GMap data)) True c w))"

section \<open>A sample environment\<close>

text \<open>
  Concrete clients, worlds, codecs and servers for the closed examples below. The server
  \<open>scripted rs\<close> answers the k-th request it sees with the k-th entry of \<open>rs\<close> and
  refuses connections afterwards. \<open>sample_json\<close> is a small JSON encoder (members in
  the order given), \<open>sample_token\<close> decodes a body of the form
  \<^verbatim>\<open>{"access_token":"..."}\<close>; the sample codec decodes nothing else.
\<close>

definition json_string :: "string \<Rightarrow> string" where
  "json_string s =
     [CHR 0x22] @ concat (map (\<lambda>c. if c = CHR 0x22 \<or> c = CHR 0x5C then [CHR 0x5C, c] else [c]) s)
       @ [CHR 0x22]"

fun commas :: "string list \<Rightarrow> string" where
  "commas [] = []"
| "commas [x] = x"
| "commas (x # y # r) = x @ '','' @ commas (y # r)"

fun sample_json :: "gvalue \<Rightarrow> string"
and sample_json_list :: "gvalue list \<Rightarrow> string list"
and sample_json_members :: "(string \<times> gvalue) list \<Rightarrow> string list" where
  "sample_json (GString s) = json_string s"
| "sample_json (GInt i) = sprintf_d i"
| "sample_json (GBool b) = (if b then ''true'' else ''false'')"
| "sample_json (GList vs) = ''['' @ commas (sample_json_list vs) @ '']''"
| "sample_json (GMap kvs) = ''{'' @ commas (sample_json_members kvs) @ ''}''"
| "sample_json_list [] = []"
| "sample_json_list (v # vs) = sample_json v # sample_json_list vs"
| "sample_json_members [] = []"
| "sample_json_members ((k, v) # kvs) =
     (json_string k @ '':'' @ sample_json v) # sample_json_members kvs"

definition sample_token :: "string \<Rightarrow> TokenResponse option" where
  "sample_token body =
     (let pre = ''{'' @ json_string ''access_token'' @ '':'' @ [CHR 0x22];
          suf = [CHR 0x22] @ ''}'';
          rest = drop (length pre) body
      in if prefix pre body \<and> suffix suf rest
         then Some \<lparr>AccessToken = take (length rest - length suf) rest,
                    TokenType = [], ExpiresIn = 0\<rparr>
         else None)"

definition token_body :: "string \<Rightarrow> string" where
  "token_body t = sample_json (GMap [(''access_token'', GString t)])"

definition scripted :: "http_result list \<Rightarrow> request list \<Rightarrow> request \<Rightarrow> http_result" where
  "scripted rs hist req = (if length hist < length rs then rs ! length hist else DoFailed)"

definition sample_env :: "http_result list \<Rightarrow> env" where
  "sample_env rs =
     \<lparr>json_Marshal = (\<lambda>v. Some (sample_json v)),
      json_Unmarshal_TokenResponse = sample_token,
      json_Unmarshal_AddressBook = (\<lambda>body. None),
      json_Unmarshal_Emails = (\<lambda>body. None),
      json_Unmarshal_Email = (\<lambda>body. None),
      json_Unmarshal_Campaign = (\<lambda>body. None),
      json_Unmarshal_SMSCampaign = (\<lambda>body. None),
      http_NewRequest_ok = (\<lambda>method url. True),
      http_Do = scripted rs,
      os_MkdirAll_ok = (\<lambda>d. True),
      os_WriteFile_ok = (\<lambda>p content. True)\<rparr>"

definition sample_client :: Client where
  "sample_client = \<lparr>UserID = ''id'', Secret = ''secret'', TokenStorage = ''tokens'', Token = ''old''\<rparr>"

definition sample_world :: world where
  "sample_world = \<lparr>dirs = [''tokens''], files = (\<lambda>p. None), sent = [], stdout = [], fetches = 0\<rparr>"

text \<open>
  What the examples look at in an outcome: the result, the client's token, the method,
  URL and \<^verbatim>\<open>Authorization\<close> header of every request sent, and the number of
  \<^verbatim>\<open>getToken\<close> invocations.
\<close>

definition observe ::
  "'a outcome \<Rightarrow> ((error + 'a) \<times> string \<times> (string \<times> string \<times> string option) list \<times> nat) option" where
  "observe out =
     map_option (\<lambda>(r, c, w).
        (r, Token c,
         map (\<lambda>q. (req_method q, req_url q, map_of (req_header q) ''Authorization'')) (sent w),
         fetches w)) out"

definition sample_request :: "string \<Rightarrow> string \<Rightarrow> string option \<Rightarrow> string option \<Rightarrow> request" where
  "sample_request meth path body token =
     \<lparr>req_method = meth, req_url = ''https://api.sendpulse.com/'' @ path, req_body = body,
      req_header = (''Content-Type'', ''application/json'')
        # (case token of None \<Rightarrow> [] | Some t \<Rightarrow> [(''Authorization'', ''Bearer '' @ t)])\<rparr>"

text \<open>
  A server that accepts the credentials and rejects every token: it answers the token
  endpoint with a fresh token and everything else with 401.
\<close>

definition rejecting_env :: env where
  "rejecting_env =
     (sample_env [])\<lparr>http_Do := (\<lambda>hist req.
        if req_url req = ''https://api.sendpulse.com/oauth/access_token''
        then Response 200 (token_body ''tok1'')
        else Response 401 ''token expired'')\<rparr>"

section \<open>Frame of the calls\<close>

text \<open>
  What a call may change: it appends to the log of requests and may count further
  \<^verbatim>\<open>getToken\<close> invocations; the credentials and the storage directory of the client,
  the directories and the output stay as they are.
\<close>

definition extends :: "Client \<Rightarrow> world \<Rightarrow> Client \<Rightarrow> world \<Rightarrow> bool" where
  "extends c w c' w' \<longleftrightarrow>
     prefix (sent w) (sent w') \<and> UserID c' = UserID c \<and> Secret c' = Secret c \<and>
     TokenStorage c' = TokenStorage c \<and> dirs w' = dirs w \<and> stdout w' = stdout w \<and>
     fetches w \<le> fetches w'"

section \<open>Basic facts\<close>

lemma methodAllowed_iff: "methodAllowed method ms \<longleftrightarrow> method \<in> set ms"
  by (induction ms) auto

lemma sample_env_simps [simp]:
  "json_Marshal (sample_env rs) v = Some (sample_json v)"
  "json_Unmarshal_TokenResponse (sample_env rs) = sample_token"
  "http_NewRequest_ok (sample_env rs) method url"
  "http_Do (sample_env rs) = scripted rs"
  "os_MkdirAll_ok (sample_env rs) d"
  "os_WriteFile_ok (sample_env rs) p content"
  by (simp_all add: sample_env_def)

lemma sample_token_tok1:
  "sample_token (token_body ''tok1'') =
     Some \<lparr>AccessToken = ''tok1'', TokenType = [], ExpiresIn = 0\<rparr>"
  by code_simp

lemma sample_token_html: "sample_token ''<html>'' = None"
  by code_simp

lemma buildRequest_sample:
  "buildRequest (sample_env rs) path meth dat useToken c =
     Inr (sample_request meth path (map_option sample_json dat)
            (if useToken \<and> Token c \<noteq> [] then Some (Token c) else None))"
  by (cases dat) (simp_all add: buildRequest_def sample_request_def APIUrl_def)

lemma tokenPath_Token [simp]: "tokenPath (c\<lparr>Token := t\<rparr>) = tokenPath c"
  by (simp add: tokenPath_def hashName_def)

lemma tokenRequestData_Token [simp]: "tokenRequestData (c\<lparr>Token := t\<rparr>) = tokenRequestData c"
  by (simp add: tokenRequestData_def)

text \<open>The two functions, one call deep, with the local bindings unfolded.\<close>

lemma sendRequest_Suc:
  "sendRequest e (Suc n) path meth dat useToken c w =
     (case buildRequest e path meth dat useToken c of
        Inl err \<Rightarrow> Some (Inl err, c, w)
      | Inr req \<Rightarrow>
          (case http_Do e (sent w) req of
             DoFailed \<Rightarrow> Some (Inl RequestFailed, c, w\<lparr>sent := sent w @ [req]\<rparr>)
           | ReadFailed \<Rightarrow> Some (Inl ReadResponseError, c, w\<lparr>sent := sent w @ [req]\<rparr>)
           | Response status respBody \<Rightarrow>
               if status = 401 \<and> \<not> strings_Contains respBody ''invalid_client''
               then (case getToken e n c (w\<lparr>sent := sent w @ [req]\<rparr>) of
                       None \<Rightarrow> None
                     | Some (Inl err, c2, w2) \<Rightarrow> Some (Inl (RefreshTokenError err), c2, w2)
                     | Some (Inr u, c2, w2) \<Rightarrow> sendRequest e n path meth dat True c2 w2)
               else if status = 401 then Some (Inl InvalidCredentials, c, w\<lparr>sent := sent w @ [req]\<rparr>)
               else Some (Inr respBody, c, w\<lparr>sent := sent w @ [req]\<rparr>)))"
  by (simp add: Let_def split: sum.splits http_result.splits)

lemma getToken_Suc:
  "getToken e (Suc n) c w =
     (case sendRequest e n ''oauth/access_token'' ''POST'' (Some (tokenRequestData c)) False c
             (w\<lparr>fetches := Suc (fetches w)\<rparr>) of
        None \<Rightarrow> None
      | Some (Inl err, c1, w1) \<Rightarrow> Some (Inl err, c1, w1)
      | Some (Inr resp, c1, w1) \<Rightarrow>
          (case json_Unmarshal_TokenResponse e resp of
             None \<Rightarrow> Some (Inl ParseTokenError, c1, w1)
           | Some tokenResp \<Rightarrow>
               if os_WriteFile_ok e (tokenPath c1) (AccessToken tokenResp)
               then Some (Inr (), c1\<lparr>Token := AccessToken tokenResp\<rparr>,
                          w1\<lparr>files := (files w1)(tokenPath c1 \<mapsto> AccessToken tokenResp)\<rparr>)
               else Some (Inl WriteFileError, c1\<lparr>Token := AccessToken tokenResp\<rparr>, w1)))"
  by (simp add: Let_def os_WriteFile_def tokenPath_def hashName_def
           split: option.splits sum.splits prod.splits)

lemma extends_refl [simp]: "extends c w c w"
  by (simp add: extends_def)

lemma extends_trans: "extends c w c1 w1 \<Longrightarrow> extends c1 w1 c2 w2 \<Longrightarrow> extends c w c2 w2"
  by (auto simp: extends_def)

lemma extends_sent [simp]: "extends c w c (w\<lparr>sent := sent w @ rs\<rparr>)"
  by (simp add: extends_def)

lemma calls_extend:
  "sendRequest e n path meth dat useToken c w = Some (r, c', w') \<Longrightarrow> extends c w c' w'"
  "getToken e n c w = Some (r', c', w') \<Longrightarrow> extends c w c' w'"
proof (induction e n path meth dat useToken c w and e n c w arbitrary: r c' w' and r' c' w'
    rule: sendRequest_getToken.induct)
  case (1 e path meth dat useToken c w)
  then show ?case by simp
next
  case (2 e n path meth dat useToken c w)
  note call = \<open>sendRequest e (Suc n) path meth dat useToken c w = Some (r, c', w')\<close>
  show ?case
  proof (cases "buildRequest e path meth dat useToken c")
    case (Inl err)
    with call show ?thesis by (simp add: sendRequest_Suc del: sendRequest.simps)
  next
    case (Inr req)
    note br = this
    let ?w1 = "w\<lparr>sent := sent w @ [req]\<rparr>"
    show ?thesis
    proof (cases "http_Do e (sent w) req")
      case DoFailed
      with br call show ?thesis by (auto simp: sendRequest_Suc simp del: sendRequest.simps)
    next
      case ReadFailed
      with br call show ?thesis by (auto simp: sendRequest_Suc simp del: sendRequest.simps)
    next
      case (Response status respBody)
      note resp = this
      show ?thesis
      proof (cases "status = 401 \<and> \<not> strings_Contains respBody ''invalid_client''")
        case False
        with br resp call show ?thesis
          by (auto simp: sendRequest_Suc simp del: sendRequest.simps split: if_splits)
      next
        case True
        from True br resp call obtain u c2 w2 where
          gt: "getToken e n c ?w1 = Some (u, c2, w2)"
          by (auto simp: sendRequest_Suc simp del: sendRequest.simps split: option.splits)
        have "extends c ?w1 c2 w2"
          using 2(1)[OF br refl resp _ _ gt] True by simp
        then have p1: "extends c w c2 w2"
          by (rule extends_trans[OF extends_sent])
        show ?thesis
        proof (cases u)
          case (Inl err)
          with True br resp call gt have "c' = c2" "w' = w2"
            by (simp_all add: sendRequest_Suc del: sendRequest.simps)
          with p1 show ?thesis by simp
        next
          case (Inr un)
          with True br resp call gt
          have sr: "sendRequest e n path meth dat True c2 w2 = Some (r, c', w')"
            by (simp add: sendRequest_Suc del: sendRequest.simps)
          have "extends c2 w2 c' w'"
            using 2(2)[OF br refl resp _ _ _ _ _ _ sr] True gt Inr by simp
          with p1 show ?thesis by (rule extends_trans)
        qed
      qed
    qed
  qed
next
  case (3 e c w)
  then show ?case by simp
next
  case (4 e n c w)
  note call = \<open>getToken e (Suc n) c w = Some (r', c', w')\<close>
  let ?w0 = "w\<lparr>fetches := Suc (fetches w)\<rparr>"
  from call obtain r1 c1 w1 where
    sr: "sendRequest e n ''oauth/access_token'' ''POST'' (Some (tokenRequestData c)) False c ?w0
           = Some (r1, c1, w1)"
    by (auto simp: getToken_Suc simp del: getToken.simps split: option.splits)
  have "extends c ?w0 c1 w1" using 4(1)[OF sr] .
  then have p: "extends c w c1 w1" by (simp add: extends_def)
  from call sr have "extends c1 w1 c' w'"
    by (auto simp: getToken_Suc extends_def simp del: getToken.simps
             split: sum.splits option.splits if_splits)
  with p show ?case by (rule extends_trans)
qed

section \<open>The dispatcher\<close>

text \<open>
  Claim C2. When the response to the request has status 401 and its body contains
  \<^verbatim>\<open>invalid_client\<close>, \<^verbatim>\<open>sendRequest\<close> fails with the invalid-credentials error.
  The client is returned unchanged and the world differs only by the one request in the
  log: \<^verbatim>\<open>getToken\<close> has not run (the counter \<open>fetches\<close> and the files are as
  before) and no second request went out.
\<close>

theorem sendRequest_invalid_client:
  assumes "buildRequest e path method data useToken c = Inr req"
    and "http_Do e (sent w) req = Response 401 respBody"
    and "strings_Contains respBody ''invalid_client''"
  shows "sendRequest e (Suc n) path method data useToken c w =
           Some (Inl InvalidCredentials, c, w\<lparr>sent := sent w @ [req]\<rparr>)"
  using assms by simp

lemma contains_invalid_client: "strings_Contains ''{error: invalid_client}'' ''invalid_client''"
  by simp

theorem sendRequest_invalid_client_witness:
  "sendRequest (sample_env [Response 401 ''{error: invalid_client}'']) (Suc 0)
      ''addressbooks'' ''GET'' None True sample_client sample_world =
     Some (Inl InvalidCredentials, sample_client,
       sample_world\<lparr>sent := sent sample_world @
          [\<lparr>req_method = ''GET'', req_url = ''https://api.sendpulse.com/addressbooks'',
            req_body = None,
            req_header = [(''Content-Type'', ''application/json''),
                          (''Authorization'', ''Bearer old'')]\<rparr>]\<rparr>)"
proof (rule sendRequest_invalid_client)
  show "buildRequest (sample_env [Response 401 ''{error: invalid_client}''])
          ''addressbooks'' ''GET'' None True sample_client =
        Inr \<lparr>req_method = ''GET'', req_url = ''https://api.sendpulse.com/addressbooks'',
             req_body = None,
             req_header = [(''Content-Type'', ''application/json''),
                           (''Authorization'', ''Bearer old'')]\<rparr>"
    by (simp add: buildRequest_def APIUrl_def sample_client_def)
  show "http_Do (sample_env [Response 401 ''{error: invalid_client}'']) (sent sample_world)
          \<lparr>req_method = ''GET'', req_url = ''https://api.sendpulse.com/addressbooks'',
           req_body = None,
           req_header = [(''Content-Type'', ''application/json''),
                         (''Authorization'', ''Bearer old'')]\<rparr> =
        Response 401 ''{error: invalid_client}''"
    by (simp add: scripted_def sample_world_def)
  show "strings_Contains ''{error: invalid_client}'' ''invalid_client''"
    by (rule contains_invalid_client)
qed

text \<open>
  Claim C8. When the response has been read and its status is not 401,
  \<^verbatim>\<open>sendRequest\<close> returns the body as it is, without an error, whatever the status
  (404 and 500 included); the client is unchanged and exactly one request went out.
\<close>

theorem sendRequest_other_status:
  assumes "buildRequest e path method data useToken c = Inr req"
    and "http_Do e (sent w) req = Response status respBody"
    and "status \<noteq> 401"
  shows "sendRequest e (Suc n) path method data useToken c w =
           Some (Inr respBody, c, w\<lparr>sent := sent w @ [req]\<rparr>)"
  using assms by simp

theorem sendRequest_other_status_witness:
  "sendRequest (sample_env [Response 500 ''Internal Server Error'']) (Suc 0)
      ''addressbooks'' ''GET'' None True sample_client sample_world =
     Some (Inr ''Internal Server Error'', sample_client,
       sample_world\<lparr>sent := sent sample_world @
          [\<lparr>req_method = ''GET'', req_url = ''https://api.sendpulse.com/addressbooks'',
            req_body = None,
            req_header = [(''Content-Type'', ''application/json''),
                          (''Authorization'', ''Bearer old'')]\<rparr>]\<rparr>)"
proof (rule sendRequest_other_status)
  show "buildRequest (sample_env [Response 500 ''Internal Server Error''])
          ''addressbooks'' ''GET'' None True sample_client =
        Inr \<lparr>req_method = ''GET'', req_url = ''https://api.sendpulse.com/addressbooks'',
             req_body = None,
             req_header = [(''Content-Type'', ''application/json''),
                           (''Authorization'', ''Bearer old'')]\<rparr>"
    by (simp add: buildRequest_def APIUrl_def sample_client_def)
  show "http_Do (sample_env [Response 500 ''Internal Server Error'']) (sent sample_world)
          \<lparr>req_method = ''GET'', req_url = ''https://api.sendpulse.com/addressbooks'',
           req_body = None,
           req_header = [(''Content-Type'', ''application/json''),
                         (''Authorization'', ''Bearer old'')]\<rparr> =
        Response 500 ''Internal Server Error''"
    by (simp add: scripted_def sample_world_def)
  show "(500::nat) \<noteq> 401" by simp
qed

text \<open>
  The retry can be built whenever the first request could, and a \<^verbatim>\<open>getToken\<close> that
  succeeded on a token request answered with a status other than 401 ran once and sent
  that one request.
\<close>

lemma buildRequest_retry:
  "buildRequest e path meth dat useToken c = Inr req \<Longrightarrow>
     \<exists>req'. buildRequest e path meth dat True c2 = Inr req'"
  by (auto simp: buildRequest_def Let_def split: option.splits if_splits)

lemma getToken_direct:
  assumes fetch: "getToken e k c w = Some (Inr (), c2, w2)"
    and token_req: "buildRequest e ''oauth/access_token'' ''POST'' (Some (tokenRequestData c)) False c
                      = Inr treq"
    and token_resp: "http_Do e (sent w) treq = Response tstatus tbody"
    and token_status: "tstatus \<noteq> 401"
  shows "fetches w2 = Suc (fetches w) \<and> sent w2 = sent w @ [treq]"
proof -
  from fetch obtain j where k: "k = Suc j" by (cases k) auto
  from fetch k obtain i where j: "j = Suc i"
    by (cases j) (auto simp: getToken_Suc simp del: getToken.simps)
  from fetch token_req token_resp token_status show ?thesis
    unfolding k j
    by (auto simp: getToken_Suc sendRequest_Suc simp del: getToken.simps sendRequest.simps
             split: option.splits if_splits)
qed

text \<open>
  Claim C1 (as amended). A 401 response without \<^verbatim>\<open>invalid_client\<close> makes
  \<^verbatim>\<open>sendRequest\<close> call \<^verbatim>\<open>getToken\<close>. When that call succeeds and the retry is
  not again answered by a 401 without \<^verbatim>\<open>invalid_client\<close>, the original call returns,
  and what it leaves is what \<^verbatim>\<open>getToken\<close> left plus exactly one retried request, the
  same request built with the new token: no further \<^verbatim>\<open>getToken\<close>, no further request.
  When the retry is answered with any status other than 401 (200 in particular), the
  original call returns the retry's body. When moreover the token request was answered
  with a status other than 401, \<^verbatim>\<open>getToken\<close> ran exactly once in the whole call and
  exactly three requests went out: the original one, the token request and the retry.
  Without a successful \<^verbatim>\<open>getToken\<close> no retry is sent, and against a server that
  rejects every token the retries do not end: see the two facts after the witness.
\<close>

theorem sendRequest_refresh_and_retry:
  assumes first: "buildRequest e path meth dat useToken c = Inr req"
    and unauthorized: "http_Do e (sent w) req = Response 401 respBody"
    and no_signal: "\<not> strings_Contains respBody ''invalid_client''"
    and fetch: "getToken e k c (w\<lparr>sent := sent w @ [req]\<rparr>) = Some (Inr (), c2, w2)"
    and settled: "\<forall>req' body. buildRequest e path meth dat True c2 = Inr req'
                    \<and> http_Do e (sent w2) req' = Response 401 body \<longrightarrow>
                    strings_Contains body ''invalid_client''"
  shows "\<exists>req' r.
           buildRequest e path meth dat True c2 = Inr req'
         \<and> sendRequest e (Suc k) path meth dat useToken c w =
             Some (r, c2, w2\<lparr>sent := sent w2 @ [req']\<rparr>)
         \<and> (\<forall>status body. http_Do e (sent w2) req' = Response status body \<and> status \<noteq> 401
               \<longrightarrow> r = Inr body)
         \<and> (\<forall>treq tstatus tbody.
               buildRequest e ''oauth/access_token'' ''POST'' (Some (tokenRequestData c)) False c
                 = Inr treq
               \<and> http_Do e (sent w @ [req]) treq = Response tstatus tbody \<and> tstatus \<noteq> 401
               \<longrightarrow> fetches w2 = Suc (fetches w) \<and> sent w2 = sent w @ [req, treq])"
proof -
  from fetch obtain j where k: "k = Suc j" by (cases k) auto
  from buildRequest_retry[OF first] obtain req' where
    retry: "buildRequest e path meth dat True c2 = Inr req'" by blast
  from settled retry
  have settled': "\<forall>body. http_Do e (sent w2) req' = Response 401 body \<longrightarrow>
                    strings_Contains body ''invalid_client''" by blast
  have again: "\<exists>r. sendRequest e (Suc j) path meth dat True c2 w2 =
                     Some (r, c2, w2\<lparr>sent := sent w2 @ [req']\<rparr>)
                   \<and> (\<forall>status body. http_Do e (sent w2) req' = Response status body \<and> status \<noteq> 401
                         \<longrightarrow> r = Inr body)"
    using retry settled'
    by (cases "http_Do e (sent w2) req'") (auto simp: sendRequest_Suc simp del: sendRequest.simps)
  have step: "sendRequest e (Suc k) path meth dat useToken c w =
          sendRequest e k path meth dat True c2 w2"
    using first unauthorized no_signal fetch
    by (simp add: sendRequest_Suc del: sendRequest.simps getToken.simps)
  have direct: "\<forall>treq tstatus tbody.
           buildRequest e ''oauth/access_token'' ''POST'' (Some (tokenRequestData c)) False c = Inr treq
           \<and> http_Do e (sent w @ [req]) treq = Response tstatus tbody \<and> tstatus \<noteq> 401
           \<longrightarrow> fetches w2 = Suc (fetches w) \<and> sent w2 = sent w @ [req, treq]"
    using getToken_direct[OF fetch] by auto
  from again obtain r where
    r: "sendRequest e (Suc j) path meth dat True c2 w2 =
          Some (r, c2, w2\<lparr>sent := sent w2 @ [req']\<rparr>)"
    and body: "\<forall>status body. http_Do e (sent w2) req' = Response status body \<and> status \<noteq> 401
                 \<longrightarrow> r = Inr body"
    by blast
  from r step k have call: "sendRequest e (Suc k) path meth dat useToken c w =
      Some (r, c2, w2\<lparr>sent := sent w2 @ [req']\<rparr>)" by simp
  show ?thesis
    by (intro exI[of _ req'] exI[of _ r] conjI retry call body direct)
qed

theorem sendRequest_refresh_and_retry_witness:
  "observe (sendRequest
      (sample_env [Response 401 ''token expired'', Response 200 (token_body ''tok1''), Response 404 ''no such book''])
      (Suc (Suc (Suc 0))) ''addressbooks/7'' ''GET'' None True sample_client sample_world) =
   Some (Inr ''no such book'', ''tok1'',
         [(''GET'', ''https://api.sendpulse.com/addressbooks/7'', Some ''Bearer old''),
          (''POST'', ''https://api.sendpulse.com/oauth/access_token'', None),
          (''GET'', ''https://api.sendpulse.com/addressbooks/7'', Some ''Bearer tok1'')],
         Suc 0)"
proof -
  let ?e = "sample_env [Response 401 ''token expired'', Response 200 (token_body ''tok1''),
                        Response 404 ''no such book'']"
  let ?req = "sample_request ''GET'' ''addressbooks/7'' None (Some ''old'')"
  let ?treq = "sample_request ''POST'' ''oauth/access_token''
                 (Some (sample_json (tokenRequestData sample_client))) None"
  let ?req' = "sample_request ''GET'' ''addressbooks/7'' None (Some ''tok1'')"
  let ?w1 = "sample_world\<lparr>sent := sent sample_world @ [?req]\<rparr>"
  let ?c2 = "sample_client\<lparr>Token := ''tok1''\<rparr>"
  let ?w2 = "sample_world\<lparr>sent := sent sample_world @ [?req, ?treq],
               fetches := Suc (fetches sample_world),
               files := (files sample_world)(tokenPath sample_client \<mapsto> ''tok1'')\<rparr>"
  have first: "buildRequest ?e ''addressbooks/7'' ''GET'' None True sample_client = Inr ?req"
    by (simp add: buildRequest_sample sample_client_def)
  have unauthorized: "http_Do ?e (sent sample_world) ?req = Response 401 ''token expired''"
    by (simp add: scripted_def sample_world_def)
  have no_signal: "\<not> strings_Contains ''token expired'' ''invalid_client''"
    by simp
  have fetch: "getToken ?e (Suc (Suc 0)) sample_client ?w1 = Some (Inr (), ?c2, ?w2)"
    by (simp add: getToken_Suc sendRequest_Suc buildRequest_sample scripted_def sample_world_def
          sample_token_tok1 del: getToken.simps sendRequest.simps)
  have retry: "buildRequest ?e ''addressbooks/7'' ''GET'' None True ?c2 = Inr ?req'"
    by (simp add: buildRequest_sample)
  have answer: "http_Do ?e (sent ?w2) ?req' = Response 404 ''no such book''"
    by (simp add: scripted_def sample_world_def)
  have settled: "\<forall>req' body. buildRequest ?e ''addressbooks/7'' ''GET'' None True ?c2 = Inr req'
                    \<and> http_Do ?e (sent ?w2) req' = Response 401 body \<longrightarrow>
                    strings_Contains body ''invalid_client''"
    using retry answer by auto
  from sendRequest_refresh_and_retry[OF first unauthorized no_signal fetch settled]
  obtain r where
    "sendRequest ?e (Suc (Suc (Suc 0))) ''addressbooks/7'' ''GET'' None True sample_client sample_world =
       Some (r, ?c2, ?w2\<lparr>sent := sent ?w2 @ [?req']\<rparr>)"
    and "r = Inr ''no such book''"
    using retry answer by auto
  then show ?thesis
    by (simp add: observe_def sample_request_def sample_world_def)
qed

text \<open>
  The token request fails (the server answers the first request with 401 and then refuses
  connections): one \<^verbatim>\<open>getToken\<close>, no retried request, and the call fails.
\<close>

theorem sendRequest_refresh_failed_no_retry:

  "observe (sendRequest (sample_env [Response 401 ''token expired'']) (Suc (Suc (Suc 0)))
      ''addressbooks'' ''GET'' None True sample_client sample_world) =
   Some (Inl (RefreshTokenError RequestFailed), ''old'',
         [(''GET'', ''https://api.sendpulse.com/addressbooks'', Some ''Bearer old''),
          (''POST'', ''https://api.sendpulse.com/oauth/access_token'', None)],
         Suc 0)"
  by (simp add: observe_def buildRequest_sample sample_request_def scripted_def sample_world_def
        sample_client_def)

text \<open>
  Nor is the number of retries bounded by the code: against the server that rejects every
  token, the call does not return within any bound on the depth of the calls.
\<close>

lemma rejecting_env_simps [simp]:
  "json_Marshal rejecting_env v = Some (sample_json v)"
  "json_Unmarshal_TokenResponse rejecting_env = sample_token"
  "http_NewRequest_ok rejecting_env meth url"
  "os_WriteFile_ok rejecting_env p content"
  "http_Do rejecting_env hist req =
     (if req_url req = ''https://api.sendpulse.com/oauth/access_token''
      then Response 200 (token_body ''tok1'') else Response 401 ''token expired'')"
  by (simp_all add: rejecting_env_def sample_env_def)

lemma buildRequest_rejecting:
  "buildRequest rejecting_env path meth dat useToken c =
     Inr (sample_request meth path (map_option sample_json dat)
            (if useToken \<and> Token c \<noteq> [] then Some (Token c) else None))"
  by (cases dat) (simp_all add: buildRequest_def sample_request_def APIUrl_def)

lemma getToken_rejecting:
  "getToken rejecting_env n c w = None \<or>
   (\<exists>c' w'. getToken rejecting_env n c w = Some (Inr (), c', w'))"
proof (cases n)
  case 0
  then show ?thesis by simp
next
  case (Suc k)
  show ?thesis
  proof (cases k)
    case 0
    with Suc show ?thesis by simp
  next
    case (Suc j)
    with \<open>n = Suc k\<close> show ?thesis
      by (simp add: getToken_Suc sendRequest_Suc buildRequest_rejecting sample_request_def
            sample_token_tok1 del: getToken.simps sendRequest.simps)
  qed
qed

lemma sendRequest_never_returns:
  "sendRequest rejecting_env n ''addressbooks'' ''GET'' None True c w = None"
proof (induction n arbitrary: c w)
  case 0
  show ?case by simp
next
  case (Suc n)
  let ?req = "sample_request ''GET'' ''addressbooks'' None
                (if Token c \<noteq> [] then Some (Token c) else None)"
  have url: "req_url ?req \<noteq> ''https://api.sendpulse.com/oauth/access_token''"
    by (simp add: sample_request_def)
  from getToken_rejecting[of n c "w\<lparr>sent := sent w @ [?req]\<rparr>"]
  show ?case
    using Suc.IH url
    by (auto simp: sendRequest_Suc buildRequest_rejecting simp del: getToken.simps sendRequest.simps)
qed

text \<open>
  The request a call sends first is the one it built, and every call that returns has
  sent it.
\<close>

lemma buildRequest_no_token:
  "buildRequest e path meth dat False c = Inr req \<Longrightarrow>
     req_header req = [(''Content-Type'', ''application/json'')]"
  by (auto simp: buildRequest_def Let_def split: option.splits if_splits)

lemma sendRequest_first_request:
  assumes call: "sendRequest e n path meth dat useToken c w = Some (r, c', w')"
    and built: "buildRequest e path meth dat useToken c = Inr req"
  shows "prefix (sent w @ [req]) (sent w')"
proof (cases n)
  case 0
  with call show ?thesis by simp
next
  case (Suc k)
  note call' = call[unfolded Suc sendRequest_Suc]
  show ?thesis
  proof (cases "http_Do e (sent w) req")
    case DoFailed
    with call' built show ?thesis by auto
  next
    case ReadFailed
    with call' built show ?thesis by auto
  next
    case (Response status body)
    show ?thesis
    proof (cases "status = 401 \<and> \<not> strings_Contains body ''invalid_client''")
      case False
      with call' built Response show ?thesis by (auto split: if_splits)
    next
      case True
      let ?w1 = "w\<lparr>sent := sent w @ [req]\<rparr>"
      from True call' built Response obtain u c2 w2 where
        gt: "getToken e k c ?w1 = Some (u, c2, w2)"
        by (auto split: option.splits)
      have e1: "extends c ?w1 c2 w2" by (rule calls_extend(2)[OF gt])
      show ?thesis
      proof (cases u)
        case (Inl err)
        with True call' built Response gt have "w' = w2" by simp
        with e1 show ?thesis by (simp add: extends_def)
      next
        case (Inr un)
        with True call' built Response gt
        have "sendRequest e k path meth dat True c2 w2 = Some (r, c', w')" by simp
        then have "extends c2 w2 c' w'" by (rule calls_extend(1))
        with e1 have "extends c ?w1 c' w'" by (rule extends_trans)
        then show ?thesis by (simp add: extends_def)
      qed
    qed
  qed
qed

text \<open>
  Claim C9 (as amended). The request that a \<^verbatim>\<open>sendRequest\<close> call with
  \<^verbatim>\<open>useToken = false\<close> builds and sends carries no \<^verbatim>\<open>Authorization\<close> header,
  whatever token the client holds, and it is the only request of the call unless the
  answer is a 401 without \<^verbatim>\<open>invalid_client\<close>. After such a 401 the call goes on
  with \<^verbatim>\<open>getToken\<close> and a retry that is sent with \<^verbatim>\<open>useToken = true\<close>; the
  example after the theorem shows that this retry carries the new token.
\<close>

theorem sendRequest_useToken_false:
  assumes call: "sendRequest e n path meth dat False c w = Some (r, c', w')"
    and built: "buildRequest e path meth dat False c = Inr req"
  shows "map_of (req_header req) ''Authorization'' = None
       \<and> (\<exists>rest. sent w' = sent w @ req # rest)
       \<and> ((\<forall>body. http_Do e (sent w) req = Response 401 body \<longrightarrow>
               strings_Contains body ''invalid_client'') \<longrightarrow> sent w' = sent w @ [req])"
proof (intro conjI impI)
  show "map_of (req_header req) ''Authorization'' = None"
    by (simp add: buildRequest_no_token[OF built])
  from sendRequest_first_request[OF call built]
  show "\<exists>rest. sent w' = sent w @ req # rest"
    by (auto elim!: prefixE)
  assume only: "\<forall>body. http_Do e (sent w) req = Response 401 body \<longrightarrow>
               strings_Contains body ''invalid_client''"
  from call obtain k where n: "n = Suc k" by (cases n) auto
  from call built only show "sent w' = sent w @ [req]"
    unfolding n sendRequest_Suc
    by (auto split: http_result.splits if_splits)
qed

theorem sendRequest_useToken_false_witness:
  "\<exists>r c' w'. sendRequest (sample_env [Response 200 (token_body ''tok1'')]) (Suc 0)
                 ''oauth/access_token'' ''POST'' (Some (tokenRequestData sample_client)) False
                 sample_client sample_world = Some (r, c', w')
            \<and> Token sample_client = ''old''
            \<and> map (\<lambda>q. map_of (req_header q) ''Authorization'') (sent w') = [None]"
proof -
  let ?e = "sample_env [Response 200 (token_body ''tok1'')]"
  let ?treq = "sample_request ''POST'' ''oauth/access_token''
                 (Some (sample_json (tokenRequestData sample_client))) None"
  have built: "buildRequest ?e ''oauth/access_token'' ''POST'' (Some (tokenRequestData sample_client))
                 False sample_client = Inr ?treq"
    by (simp add: buildRequest_sample)
  have answer: "http_Do ?e (sent sample_world) ?treq = Response 200 (token_body ''tok1'')"
    by (simp add: scripted_def sample_world_def)
  obtain r c' w' where
    call: "sendRequest ?e (Suc 0) ''oauth/access_token'' ''POST''
             (Some (tokenRequestData sample_client)) False sample_client sample_world =
           Some (r, c', w')"
    using built answer by (simp add: sendRequest_Suc del: sendRequest.simps)
  from sendRequest_useToken_false[OF call built] answer
  have "map (\<lambda>q. map_of (req_header q) ''Authorization'') (sent w') = [None]"
    by (simp add: sample_world_def)
  with call show ?thesis by (auto simp: sample_client_def)
qed

text \<open>
  The token request itself (\<^verbatim>\<open>useToken = false\<close>) is answered with 401: the nested
  \<^verbatim>\<open>getToken\<close> obtains \<^verbatim>\<open>tok1\<close> and the retry of this call goes out with
  \<^verbatim>\<open>Authorization: Bearer tok1\<close>.
\<close>

theorem sendRequest_useToken_false_retry_has_header:
  "observe (sendRequest
      (sample_env [Response 401 ''token expired'', Response 200 (token_body ''tok1''),
                   Response 200 (token_body ''tok1'')])
      (Suc (Suc (Suc 0))) ''oauth/access_token'' ''POST'' (Some (tokenRequestData sample_client))
      False sample_client sample_world) =
   Some (Inr (token_body ''tok1''), ''tok1'',
         [(''POST'', ''https://api.sendpulse.com/oauth/access_token'', None),
          (''POST'', ''https://api.sendpulse.com/oauth/access_token'', None),
          (''POST'', ''https://api.sendpulse.com/oauth/access_token'', Some ''Bearer tok1'')],
         Suc 0)"
  by (simp add: observe_def buildRequest_sample sample_request_def scripted_def sample_world_def
        sample_client_def sample_token_tok1 os_WriteFile_def)

section \<open>The token manager\<close>

text \<open>
  Claim C5. \<^verbatim>\<open>getToken\<close> returns exactly when its token request returns. It then
  fails with the request's error when the request failed, with the parse error when the
  body does not parse, and with the error of \<^verbatim>\<open>os.WriteFile\<close> when the write fails;
  in every other case it succeeds. Whenever the body parses, the token parsed from it is
  the client's token, and when the write succeeds it is the whole content of the file
  whose path joins the client's storage directory and the hexadecimal MD5 digest of
  \<^verbatim>\<open>UserID + "::" + Secret\<close>, whatever that file held before.
\<close>

theorem getToken_result:
  "(getToken e (Suc n) c w = None \<longleftrightarrow>
      sendRequest e n ''oauth/access_token'' ''POST'' (Some (tokenRequestData c)) False c
        (w\<lparr>fetches := Suc (fetches w)\<rparr>) = None)
   \<and> (\<forall>r1 c1 w1.
        sendRequest e n ''oauth/access_token'' ''POST'' (Some (tokenRequestData c)) False c
          (w\<lparr>fetches := Suc (fetches w)\<rparr>) = Some (r1, c1, w1) \<longrightarrow>
        (\<exists>r c' w'.
           getToken e (Suc n) c w = Some (r, c', w')
         \<and> (\<forall>err. r1 = Inl err \<longrightarrow> r = Inl err)
         \<and> (\<forall>body. r1 = Inr body \<longrightarrow>
              (case json_Unmarshal_TokenResponse e body of
                 None \<Rightarrow> r = Inl ParseTokenError
               | Some tokenResp \<Rightarrow>
                   Token c' = AccessToken tokenResp
                   \<and> (if os_WriteFile_ok e
                            (filepath_Join (TokenStorage c)
                               (sprintf_x (md5_Sum (UserID c @ ''::'' @ Secret c))))
                            (AccessToken tokenResp)
                       then r = Inr ()
                          \<and> files w'
                               (filepath_Join (TokenStorage c)
                                  (sprintf_x (md5_Sum (UserID c @ ''::'' @ Secret c))))
                             = Some (AccessToken tokenResp)
                       else r = Inl WriteFileError)))))"
proof (intro conjI allI impI)
  show "getToken e (Suc n) c w = None \<longleftrightarrow>
      sendRequest e n ''oauth/access_token'' ''POST'' (Some (tokenRequestData c)) False c
        (w\<lparr>fetches := Suc (fetches w)\<rparr>) = None"
    by (auto simp: getToken_Suc simp del: getToken.simps
             split: option.splits sum.splits if_splits)
next
  fix r1 c1 w1
  let ?w0 = "w\<lparr>fetches := Suc (fetches w)\<rparr>"
  assume sr: "sendRequest e n ''oauth/access_token'' ''POST'' (Some (tokenRequestData c)) False c ?w0
                = Some (r1, c1, w1)"
  have "extends c ?w0 c1 w1" by (rule calls_extend(1)[OF sr])
  then have path: "tokenPath c1 =
      filepath_Join (TokenStorage c) (sprintf_x (md5_Sum (UserID c @ ''::'' @ Secret c)))"
    by (simp add: extends_def tokenPath_def hashName_def)
  from sr path
  show "\<exists>r c' w'.
           getToken e (Suc n) c w = Some (r, c', w')
         \<and> (\<forall>err. r1 = Inl err \<longrightarrow> r = Inl err)
         \<and> (\<forall>body. r1 = Inr body \<longrightarrow>
              (case json_Unmarshal_TokenResponse e body of
                 None \<Rightarrow> r = Inl ParseTokenError
               | Some tokenResp \<Rightarrow>
                   Token c' = AccessToken tokenResp
                   \<and> (if os_WriteFile_ok e
                            (filepath_Join (TokenStorage c)
                               (sprintf_x (md5_Sum (UserID c @ ''::'' @ Secret c))))
                            (AccessToken tokenResp)
                       then r = Inr ()
                          \<and> files w'
                               (filepath_Join (TokenStorage c)
                                  (sprintf_x (md5_Sum (UserID c @ ''::'' @ Secret c))))
                             = Some (AccessToken tokenResp)
                       else r = Inl WriteFileError)))"
    by (auto simp: getToken_Suc simp del: getToken.simps
             split: sum.splits option.splits)
qed

theorem getToken_result_witness:
  "(\<exists>c' w'. getToken (sample_env [Response 200 (token_body ''tok1'')]) (Suc (Suc 0))
               sample_client sample_world = Some (Inr (), c', w')
          \<and> Token c' = ''tok1''
          \<and> files w' (filepath_Join ''tokens'' (sprintf_x (md5_Sum ''id::secret''))) = Some ''tok1'')
   \<and> (\<exists>c' w'. getToken (sample_env [Response 200 ''<html>'']) (Suc (Suc 0))
               sample_client sample_world = Some (Inl ParseTokenError, c', w'))"
proof
  let ?e = "sample_env [Response 200 (token_body ''tok1'')]"
  let ?treq = "sample_request ''POST'' ''oauth/access_token''
                 (Some (sample_json (tokenRequestData sample_client))) None"
  let ?w0 = "sample_world\<lparr>fetches := Suc (fetches sample_world)\<rparr>"
  have sr: "sendRequest ?e (Suc 0) ''oauth/access_token'' ''POST''
              (Some (tokenRequestData sample_client)) False sample_client ?w0 =
            Some (Inr (token_body ''tok1''), sample_client, ?w0\<lparr>sent := sent ?w0 @ [?treq]\<rparr>)"
    by (simp add: buildRequest_sample scripted_def sample_world_def)
  from getToken_result[of ?e "Suc 0" sample_client sample_world, THEN conjunct2, rule_format, OF sr]
  show "\<exists>c' w'. getToken ?e (Suc (Suc 0)) sample_client sample_world = Some (Inr (), c', w')
          \<and> Token c' = ''tok1''
          \<and> files w' (filepath_Join ''tokens'' (sprintf_x (md5_Sum ''id::secret''))) = Some ''tok1''"
    by (auto simp: sample_token_tok1 sample_client_def simp del: getToken.simps sendRequest.simps)
next
  let ?e = "sample_env [Response 200 ''<html>'']"
  let ?treq = "sample_request ''POST'' ''oauth/access_token''
                 (Some (sample_json (tokenRequestData sample_client))) None"
  let ?w0 = "sample_world\<lparr>fetches := Suc (fetches sample_world)\<rparr>"
  have sr: "sendRequest ?e (Suc 0) ''oauth/access_token'' ''POST''
              (Some (tokenRequestData sample_client)) False sample_client ?w0 =
            Some (Inr ''<html>'', sample_client, ?w0\<lparr>sent := sent ?w0 @ [?treq]\<rparr>)"
    by (simp add: buildRequest_sample scripted_def sample_world_def)
  from getToken_result[of ?e "Suc 0" sample_client sample_world, THEN conjunct2, rule_format, OF sr]
  show "\<exists>c' w'. getToken ?e (Suc (Suc 0)) sample_client sample_world =
          Some (Inl ParseTokenError, c', w')"
    by (auto simp: sample_token_html simp del: getToken.simps sendRequest.simps)
qed

subsection \<open>The fingerprint\<close>

text \<open>The hexadecimal rendering loses nothing: different byte strings print differently.\<close>

lemma hex_digit_inj:
  assumes "i < 16" "j < 16" "hex_digit i = hex_digit j"
  shows "i = j"
proof -
  have d: "distinct ''0123456789abcdef''" by simp
  have l: "length ''0123456789abcdef'' = 16" by simp
  from assms show ?thesis
    unfolding hex_digit_def using nth_eq_iff_index_eq[OF d, of i j] l by simp
qed

lemma of_char_nat_less: "(of_char c :: nat) < 256"
proof -
  have "(of_char c :: nat) mod 256 = of_char c" by (rule of_char_mod_256)
  then show ?thesis by (metis mod_less_divisor zero_less_numeral)
qed

lemma hex_byte_inj:
  assumes "hex_byte a = hex_byte b"
  shows "a = b"
proof -
  let ?x = "of_char a :: nat" and ?y = "of_char b :: nat"
  have lx: "?x < 256" and ly: "?y < 256" by (rule of_char_nat_less)+
  from assms have h1: "hex_digit (?x div 16) = hex_digit (?y div 16)"
    and h2: "hex_digit (?x mod 16) = hex_digit (?y mod 16)"
    by (simp_all add: hex_byte_def)
  have "?x div 16 < 16" "?y div 16 < 16"
    using lx ly by arith+
  then have "?x div 16 = ?y div 16"
    by (intro hex_digit_inj[OF _ _ h1])
  moreover have "?x mod 16 = ?y mod 16"
    by (intro hex_digit_inj[OF _ _ h2]) auto
  ultimately have "?x = ?y" by (metis div_mult_mod_eq)
  then show ?thesis by simp
qed

lemma length_hex_byte [simp]: "length (hex_byte c) = 2"
  by (simp add: hex_byte_def)

lemma sprintf_x_inj: "sprintf_x xs = sprintf_x ys \<Longrightarrow> xs = ys"
proof (induction xs arbitrary: ys)
  case Nil
  then show ?case by (cases ys) (auto simp: sprintf_x_def hex_byte_def)
next
  case (Cons a xs)
  show ?case
  proof (cases ys)
    case Nil
    with Cons.prems show ?thesis by (auto simp: sprintf_x_def hex_byte_def)
  next
    case (Cons b ys')
    with Cons.prems have "hex_byte a @ sprintf_x xs = hex_byte b @ sprintf_x ys'"
      by (simp add: sprintf_x_def)
    then have "hex_byte a = hex_byte b" "sprintf_x xs = sprintf_x ys'" by simp_all
    with Cons.IH Cons show ?thesis by (auto dest: hex_byte_inj)
  qed
qed

lemma length_sprintf_x: "length (sprintf_x bs) = 2 * length bs"
  by (induction bs) (simp_all add: sprintf_x_def)

lemma length_md5_Sum: "length (md5_Sum msg) = 16"
  by (simp add: md5_Sum_def md5_word_bytes_def split: prod.splits)

text \<open>
  Claim C4 (as amended). The fingerprint is a function of the string
  \<^verbatim>\<open>UserID + "::" + Secret\<close> alone: two clients have the same fingerprint exactly when
  the MD5 digests of their joined strings are equal, in particular whenever the joined
  strings are equal, and it is always 32 hexadecimal characters long. Distinct credential
  pairs need not get distinct fingerprints: the example after the theorem gives two pairs
  with the same joined string.
\<close>

theorem hashName_fingerprint:
  "(hashName c = hashName c' \<longleftrightarrow>
      md5_Sum (UserID c @ ''::'' @ Secret c) = md5_Sum (UserID c' @ ''::'' @ Secret c'))
   \<and> (UserID c @ ''::'' @ Secret c = UserID c' @ ''::'' @ Secret c' \<longrightarrow> hashName c = hashName c')
   \<and> length (hashName c) = 32"
  by (auto simp: hashName_def length_sprintf_x length_md5_Sum dest: sprintf_x_inj)

theorem hashName_fingerprint_witness:
  "UserID (NewClient ''id'' ''secret'' ''tokens'') @ ''::'' @ Secret (NewClient ''id'' ''secret'' ''tokens'')
     = UserID (NewClient ''id'' ''secret'' ''other'') @ ''::'' @ Secret (NewClient ''id'' ''secret'' ''other'')
   \<and> hashName (NewClient ''id'' ''secret'' ''tokens'') = hashName (NewClient ''id'' ''secret'' ''other'')
   \<and> length (hashName (NewClient ''id'' ''secret'' ''tokens'')) = 32"
proof -
  have "UserID (NewClient ''id'' ''secret'' ''tokens'') @ ''::'' @ Secret (NewClient ''id'' ''secret'' ''tokens'')
     = UserID (NewClient ''id'' ''secret'' ''other'') @ ''::'' @ Secret (NewClient ''id'' ''secret'' ''other'')"
    by (simp add: NewClient_def)
  with hashName_fingerprint [of "NewClient ''id'' ''secret'' ''tokens''"
      "NewClient ''id'' ''secret'' ''other''"]
  show ?thesis by blast
qed

text \<open>
  The pairs \<^verbatim>\<open>("a::b", "c")\<close> and \<^verbatim>\<open>("a", "b::c")\<close> are distinct and both join to
  \<^verbatim>\<open>a::b::c\<close>.
\<close>

theorem hashName_collision:
  "(UserID (NewClient ''a::b'' ''c'' ''tokens''), Secret (NewClient ''a::b'' ''c'' ''tokens''))
     \<noteq> (UserID (NewClient ''a'' ''b::c'' ''tokens''), Secret (NewClient ''a'' ''b::c'' ''tokens''))
   \<and> hashName (NewClient ''a::b'' ''c'' ''tokens'') = hashName (NewClient ''a'' ''b::c'' ''tokens'')"
  by (simp add: hashName_def NewClient_def)

subsection \<open>Init\<close>

text \<open>
  Claim C3 (as amended). When the storage directory exists and holds a non-empty file
  under the fingerprint, \<^verbatim>\<open>Init\<close> makes the file's content the client's token and
  returns success with the world as it was: nothing is sent, for any bound on the call
  depth. When the directory exists or can be created and the file is empty, or the file is
  absent and the client holds no token yet, \<^verbatim>\<open>Init\<close> is the call of \<^verbatim>\<open>getToken\<close>.
  A client that already holds a token keeps it when the file is absent, without any
  token request: see the example after the theorem.
\<close>

theorem Init_token_file:
  "(TokenStorage c \<in> set (dirs w) \<and> files w (tokenPath c) = Some tok \<and> tok \<noteq> [] \<longrightarrow>
      Init e n c w = Some (Inr (), c\<lparr>Token := tok\<rparr>, w))
   \<and> (os_MkdirAll e (TokenStorage c) w = Some w1 \<and> files w (tokenPath c) = Some [] \<longrightarrow>
      Init e n c w = getToken e n (c\<lparr>Token := []\<rparr>) w1)
   \<and> (os_MkdirAll e (TokenStorage c) w = Some w1 \<and> files w (tokenPath c) = None \<and> Token c = [] \<longrightarrow>
      Init e n c w = getToken e n c w1)"
  by (auto simp: Init_def os_MkdirAll_def os_ReadFile_def split: if_splits)

theorem Init_token_file_witness:
  "Init (sample_env []) 0 sample_client
      (sample_world\<lparr>files := (files sample_world)(tokenPath sample_client \<mapsto> ''cached'')\<rparr>) =
     Some (Inr (), sample_client\<lparr>Token := ''cached''\<rparr>,
           sample_world\<lparr>files := (files sample_world)(tokenPath sample_client \<mapsto> ''cached'')\<rparr>)
   \<and> Init (sample_env [Response 200 (token_body ''tok1'')]) (Suc (Suc 0))
        (NewClient ''id'' ''secret'' ''tokens'') sample_world =
      getToken (sample_env [Response 200 (token_body ''tok1'')]) (Suc (Suc 0))
        (NewClient ''id'' ''secret'' ''tokens'') sample_world"
  using Init_token_file [of sample_client
      "sample_world\<lparr>files := (files sample_world)(tokenPath sample_client \<mapsto> ''cached'')\<rparr>"
      "''cached''" "sample_env []" 0]
    Init_token_file [of "NewClient ''id'' ''secret'' ''tokens''" sample_world _
      "sample_env [Response 200 (token_body ''tok1'')]" "Suc (Suc 0)" sample_world]
  by (simp add: sample_client_def sample_world_def NewClient_def os_MkdirAll_def)

text \<open>
  The sample client holds the token \<^verbatim>\<open>old\<close> and there is no token file:
  \<^verbatim>\<open>Init\<close> succeeds, \<^verbatim>\<open>getToken\<close> is not called and nothing is sent.
\<close>

theorem Init_keeps_token_without_file:
  "files sample_world (tokenPath sample_client) = None
   \<and> observe (Init (sample_env []) (Suc (Suc 0)) sample_client sample_world) =
       Some (Inr (), ''old'', [], 0)"
  by (simp add: Init_def os_MkdirAll_def os_ReadFile_def observe_def sample_world_def sample_client_def)

section \<open>SendRawRequest\<close>

text \<open>
  Claim C7. \<^verbatim>\<open>SendRawRequest\<close> rejects every method outside POST, GET, DELETE, PUT,
  PATCH with the error "method not allowed", leaving client and world untouched (no
  request goes out); \<^verbatim>\<open>TRACE\<close> is such a method. For a method of the list,
  \<^verbatim>\<open>PATCH\<close> in particular, the call is the call of \<^verbatim>\<open>sendRequest\<close> with the same
  path, method and payload and with the token switched on.
\<close>

theorem SendRawRequest_allow_list:
  "(method \<notin> set [''POST'', ''GET'', ''DELETE'', ''PUT'', ''PATCH''] \<longrightarrow>
      SendRawRequest e n path method data c w = Some (Inl (Errorf ''method not allowed''), c, w))
   \<and> (method \<in> set [''POST'', ''GET'', ''DELETE'', ''PUT'', ''PATCH''] \<longrightarrow>
      SendRawRequest e n path method data c w = sendRequest e n path method data True c w)
   \<and> SendRawRequest e n path ''TRACE'' data c w = Some (Inl (Errorf ''method not allowed''), c, w)
   \<and> SendRawRequest e n path ''PATCH'' data c w = sendRequest e n path ''PATCH'' data True c w"
  by (simp add: SendRawRequest_def allowedMethods_def)

theorem SendRawRequest_allow_list_witness:
  "''post'' \<notin> set [''POST'', ''GET'', ''DELETE'', ''PUT'', ''PATCH'']
   \<and> SendRawRequest (sample_env []) 1 ''addressbooks'' ''post'' None sample_client sample_world =
       Some (Inl (Errorf ''method not allowed''), sample_client, sample_world)
   \<and> SendRawRequest (sample_env []) 1 ''addressbooks'' ''TRACE'' None sample_client sample_world =
       Some (Inl (Errorf ''method not allowed''), sample_client, sample_world)"
  using SendRawRequest_allow_list [of "''post''" "sample_env []" 1 "''addressbooks''" None
      sample_client sample_world]
  by simp

section \<open>SMTPSendMail\<close>

lemma length_base64_groups: "length (base64_groups xs) = 4 * ((length xs + 2) div 3)"
proof (induction xs rule: base64_groups.induct)
  case (4 a b c rest)
  have "(length rest + 5) div 3 = Suc ((length rest + 2) div 3)" by arith
  with 4 show ?case by (simp add: add.commute)
qed simp_all

lemma length_base64: "length (base64_EncodeToString s) = 4 * ((length s + 2) div 3)"
  by (simp add: base64_EncodeToString_def length_base64_groups)

lemma base64_changes: "s \<noteq> [] \<Longrightarrow> base64_EncodeToString s \<noteq> s"
proof
  assume ne: "s \<noteq> []" and eq: "base64_EncodeToString s = s"
  from eq have "length (base64_EncodeToString s) = length s" by simp
  then have "4 * ((length s + 2) div 3) = length s" by (simp add: length_base64)
  then have "length s = 0" by arith
  with ne show False by simp
qed

lemma encodeHtml_html:
  "map_of m ''html'' = Some (GString html) \<Longrightarrow>
     map_of (encodeHtml m) = (map_of m)(''html'' \<mapsto> GString (base64_EncodeToString html))"
  by (simp add: encodeHtml_def update_conv')

lemma SMTPSendMail_map:
  "SMTPSendMail e n (Some m) c w = Some (r, m', c', w') \<Longrightarrow> m' = Some (encodeHtml m)"
  by (auto simp: SMTPSendMail_def Let_def split: option.splits)

text \<open>
  Claim C10 (as amended). When the map holds a string under \<^verbatim>\<open>html\<close>, every call of
  \<^verbatim>\<open>SMTPSendMail\<close> that returns leaves the caller's map with that entry replaced by
  its base64 encoding and all other entries as they were; the request that goes out is
  built from the JSON of the map after the replacement (and nothing goes out when that
  map does not serialise). For a non-empty HTML string the entry differs from the
  original afterwards. The empty string is its own encoding: see the example after the
  theorem.
\<close>

theorem SMTPSendMail_encodes_html:
  assumes html: "map_of m ''html'' = Some (GString html)"
    and call: "SMTPSendMail e n (Some m) c w = Some (r, m', c', w')"
  shows "\<exists>m1. m' = Some m1
           \<and> map_of m1 ''html'' = Some (GString (base64_EncodeToString html))
           \<and> (\<forall>k. k \<noteq> ''html'' \<longrightarrow> map_of m1 k = map_of m k)
           \<and> (html \<noteq> [] \<longrightarrow> map_of m1 ''html'' \<noteq> map_of m ''html'')
           \<and> (case json_Marshal e (GMap m1) of
                 None \<Rightarrow> sent w' = sent w
               | Some emailJSON \<Rightarrow>
                   (\<forall>req. buildRequest e ''smtp/emails'' ''POST''
                            (Some (GMap [(''email'', GString emailJSON)])) True c = Inr req \<longrightarrow>
                          (\<exists>rest. sent w' = sent w @ req # rest)))"
proof -
  let ?m1 = "encodeHtml m"
  have m': "m' = Some ?m1" by (rule SMTPSendMail_map[OF call])
  have upd: "map_of ?m1 = (map_of m)(''html'' \<mapsto> GString (base64_EncodeToString html))"
    by (rule encodeHtml_html[OF html])
  have log: "case json_Marshal e (GMap ?m1) of
                 None \<Rightarrow> sent w' = sent w
               | Some emailJSON \<Rightarrow>
                   (\<forall>req. buildRequest e ''smtp/emails'' ''POST''
                            (Some (GMap [(''email'', GString emailJSON)])) True c = Inr req \<longrightarrow>
                          (\<exists>rest. sent w' = sent w @ req # rest))"
  proof (cases "json_Marshal e (GMap ?m1)")
    case None
    with call show ?thesis by (simp add: SMTPSendMail_def Let_def)
  next
    case (Some emailJSON)
    from call Some obtain r1 w1 where
      sr: "sendRequest e n ''smtp/emails'' ''POST'' (Some (GMap [(''email'', GString emailJSON)]))
             True c w = Some (r1, c', w1)"
      and w': "sent w' = sent w1"
      by (auto simp: SMTPSendMail_def Let_def split: option.splits)
    show ?thesis
      using sendRequest_first_request[OF sr] w' Some by (auto elim!: prefixE)
  qed
  from m' upd log html show ?thesis
    by (auto simp: base64_changes)
qed

theorem SMTPSendMail_encodes_html_witness:
  "\<exists>r m1 c' w'.
      SMTPSendMail (sample_env [Response 200 ''ok'']) (Suc 0)
        (Some [(''subject'', GString ''Hi''), (''html'', GString ''<p>Hi</p>'')])
        sample_client sample_world = Some (r, Some m1, c', w')
      \<and> map_of m1 ''html'' = Some (GString (base64_EncodeToString ''<p>Hi</p>''))
      \<and> map_of m1 ''html'' \<noteq> Some (GString ''<p>Hi</p>'')
      \<and> map_of m1 ''subject'' = Some (GString ''Hi'')"
proof -
  let ?m = "[(''subject'', GString ''Hi''), (''html'', GString ''<p>Hi</p>'')]"
  have html: "map_of ?m ''html'' = Some (GString ''<p>Hi</p>'')" by simp
  obtain r m' c' w' where
    call: "SMTPSendMail (sample_env [Response 200 ''ok'']) (Suc 0) (Some ?m)
             sample_client sample_world = Some (r, m', c', w')"
    by (simp add: SMTPSendMail_def Let_def buildRequest_sample scripted_def sample_world_def)
  from SMTPSendMail_encodes_html[OF html call] call
  show ?thesis by auto
qed

text \<open>With \<^verbatim>\<open>"html": ""\<close> the map after the call holds the original string.\<close>

theorem SMTPSendMail_empty_html_unchanged:
  "map_option (\<lambda>(r, m', c', w'). (r, m'))
     (SMTPSendMail (sample_env [Response 200 ''ok'']) (Suc 0)
        (Some [(''html'', GString [])]) sample_client sample_world) =
   Some (Inr (), Some [(''html'', GString [])])"
  by (simp add: SMTPSendMail_def Let_def encodeHtml_def base64_EncodeToString_def
        buildRequest_sample scripted_def sample_world_def)

section \<open>The argument checks\<close>

text \<open>
  Every API method that checks its arguments returns its error with client and world
  untouched (nothing is sent) when an id is zero, a string is empty, a slice has length
  zero or, for \<^verbatim>\<open>UpdateEmailVariables\<close>, the map of variables has length zero. For
  \<^verbatim>\<open>SMTPSendMail\<close> the same holds of the nil map.
\<close>

lemma required_arguments_checked:
  "name = [] \<Longrightarrow>
     CreateAddressBook e n name c w = Some (Inl (Errorf ''empty book name''), c, w)"
  "bid = 0 \<or> name = [] \<Longrightarrow>
     EditAddressBook e n bid name c w = Some (Inl (Errorf ''empty book name or book id''), c, w)"
  "bid = 0 \<Longrightarrow> RemoveAddressBook e n bid c w = Some (Inl (Errorf ''empty book id''), c, w)"
  "bid = 0 \<Longrightarrow> GetBookInfo e n bid c w = Some (Inl (Errorf ''empty book id''), c, w)"
  "bid = 0 \<Longrightarrow> GetEmailsFromBook e n bid c w = Some (Inl (Errorf ''empty book id''), c, w)"
  "bid = 0 \<or> emails = [] \<Longrightarrow>
     AddEmails e n bid emails c w = Some (Inl (Errorf ''empty email list or book id''), c, w)"
  "bid = 0 \<or> addresses = [] \<Longrightarrow>
     RemoveEmails e n bid addresses c w = Some (Inl (Errorf ''empty email list or book id''), c, w)"
  "bid = 0 \<or> email = [] \<Longrightarrow>
     GetEmailInfo e n bid email c w = Some (Inl (Errorf ''empty email or book id''), c, w)"
  "bid = 0 \<or> email = [] \<or> variables = [] \<Longrightarrow>
     UpdateEmailVariables e n bid email variables c w =
       Some (Inl (Errorf ''empty email, variables or book id''), c, w)"
  "cid = 0 \<Longrightarrow> GetCampaignInfo e n cid c w = Some (Inl (Errorf ''empty campaign id''), c, w)"
  "senderName = [] \<or> senderEmail = [] \<or> subject = [] \<or> body = [] \<or> bid = 0 \<Longrightarrow>
     CreateCampaign e n senderName senderEmail subject body bid title attachments c w =
       Some (Inl (Errorf ''missing required campaign data''), c, w)"
  "cid = 0 \<Longrightarrow> CancelCampaign e n cid c w = Some (Inl (Errorf ''empty campaign id''), c, w)"
  "bid = 0 \<or> numbers = [] \<Longrightarrow>
     SMSAddPhones e n bid numbers c w = Some (Inl (Errorf ''empty phones or book id''), c, w)"
  "bid = 0 \<or> phones = [] \<Longrightarrow>
     SMSAddPhonesWithVariables e n bid phones c w =
       Some (Inl (Errorf ''empty phones or book id''), c, w)"
  "senderName = [] \<or> numbers = [] \<or> body = [] \<Longrightarrow>
     SMSSend e n senderName numbers body date transliterate route c w =
       Some (Inl (Errorf ''missing required SMS data''), c, w)"
  "senderName = [] \<or> bid = 0 \<or> body = [] \<Longrightarrow>
     SMSAddCampaign e n senderName bid body date transliterate c w =
       Some (Inl (Errorf ''missing required SMS campaign data''), c, w)"
  "SMTPSendMail e n None c w = Some (Inl (Errorf ''empty email data''), None, c, w)"
  by (simp_all add: CreateAddressBook_def EditAddressBook_def RemoveAddressBook_def GetBookInfo_def
        GetEmailsFromBook_def AddEmails_def RemoveEmails_def GetEmailInfo_def
        UpdateEmailVariables_def GetCampaignInfo_def CreateCampaign_def CancelCampaign_def
        SMSAddPhones_def SMSAddPhonesWithVariables_def SMSSend_def SMSAddCampaign_def
        SMTPSendMail_def)

text \<open>
  Claim C6, at \<^verbatim>\<open>SMTPSendMail\<close>. The check of the required argument is
  \<^verbatim>\<open>emailData == nil\<close>: the nil map is rejected with "empty email data" before
  anything is sent, but the empty map \<^verbatim>\<open>map[string]interface{}{}\<close> passes the check
  and one POST to \<^verbatim>\<open>smtp/emails\<close> goes out.
\<close>

theorem SMTPSendMail_empty_map_is_sent:
  "map_option (\<lambda>(r, m', c', w'). (r, map (\<lambda>q. (req_method q, req_url q)) (sent w')))
     (SMTPSendMail (sample_env [Response 200 ''ok'']) (Suc 0) None sample_client sample_world) =
   Some (Inl (Errorf ''empty email data''), [])
   \<and> map_option (\<lambda>(r, m', c', w'). (r, map (\<lambda>q. (req_method q, req_url q)) (sent w')))
     (SMTPSendMail (sample_env [Response 200 ''ok'']) (Suc 0) (Some []) sample_client sample_world) =
   Some (Inr (), [(''POST'', ''https://api.sendpulse.com/smtp/emails'')])"
  by (simp add: SMTPSendMail_def Let_def encodeHtml_def
        buildRequest_sample sample_request_def scripted_def sample_world_def)

end
